theory Spec2Isabelle
  imports Complex_Main
begin

section \<open>JavaScript values\<close>

text \<open>
  A value produced by \<^verbatim>\<open>JSON.parse\<close> or \<^verbatim>\<open>response.json()\<close>. An object is the list of its
  own properties; a number is only ever tested for being zero (by \<^verbatim>\<open>||\<close> and \<^verbatim>\<open>&&\<close>).
  The JavaScript value \<^verbatim>\<open>undefined\<close> is \<open>None\<close> of \<open>json option\<close>.
\<close>

datatype json =
    JNull
  | JBool bool
  | JNum real
  | JStr string
  | JArr "json list"
  | JObj "(string \<times> json) list"

text \<open>An \<^verbatim>\<open>IncomingMessage\<close> or a response body stream: the chunks it yields, in order.\<close>

type_synonym stream = "string list"

text \<open>Truthiness, as \<^verbatim>\<open>||\<close>, \<^verbatim>\<open>&&\<close> and \<^verbatim>\<open>!\<close> test it.\<close>

fun truthy :: "json option \<Rightarrow> bool" where
  "truthy None = False"
| "truthy (Some JNull) = False"
| "truthy (Some (JBool b)) = b"
| "truthy (Some (JNum n)) = (n \<noteq> 0)"
| "truthy (Some (JStr s)) = (s \<noteq> [])"
| "truthy (Some (JArr xs)) = True"
| "truthy (Some (JObj kvs)) = True"

definition truthy_str :: "string option \<Rightarrow> bool" where
  "truthy_str s = (case s of None \<Rightarrow> False | Some t \<Rightarrow> t \<noteq> [])"

text \<open>\<^verbatim>\<open>a || b\<close> on an optional string with a string fallback.\<close>

definition or_default :: "string option \<Rightarrow> string \<Rightarrow> string" where
  "or_default a b = (case a of None \<Rightarrow> b | Some t \<Rightarrow> if t = [] then b else t)"

text \<open>\<^verbatim>\<open>a || b\<close> where both sides may be \<^verbatim>\<open>undefined\<close>.\<close>

definition or_else :: "string option \<Rightarrow> string option \<Rightarrow> string option" where
  "or_else a b = (if truthy_str a then a else b)"

text \<open>\<^verbatim>\<open>String.prototype.includes\<close>: the argument occurs as a contiguous substring.\<close>

fun starts_with :: "string \<Rightarrow> string \<Rightarrow> bool" where
  "starts_with s [] = True"
| "starts_with [] (c # t) = False"
| "starts_with (d # s) (c # t) = (d = c \<and> starts_with s t)"

fun str_includes :: "string \<Rightarrow> string \<Rightarrow> bool" where
  "str_includes [] t = (t = [])"
| "str_includes (c # s) t = (starts_with (c # s) t \<or> str_includes s t)"

definition nl :: string where
  "nl = [CHR 0x0A]"

text \<open>A number in a template literal: its decimal digits.\<close>

definition digit_char :: "nat \<Rightarrow> char" where
  "digit_char d = ''0123456789'' ! d"

function show_nat :: "nat \<Rightarrow> string" where
  "show_nat n = (if n < 10 then [digit_char n] else show_nat (n div 10) @ [digit_char (n mod 10)])"
  by pat_completeness auto
termination
  by (relation "measure id") auto

declare show_nat.simps [simp del]

section \<open>Errors\<close>

text \<open>
  The \<^verbatim>\<open>AxiosError\<close> thrown by the hosted API's client. The code reads \<^verbatim>\<open>error.code\<close>,
  \<^verbatim>\<open>error.request.hostname\<close>, \<^verbatim>\<open>error.request.syscall\<close>, \<^verbatim>\<open>error.response\<close> (its
  \<^verbatim>\<open>status\<close> and \<^verbatim>\<open>data\<close>) and, when the error is passed on, \<^verbatim>\<open>error.message\<close>.
  \<^verbatim>\<open>response.data\<close> is \<^verbatim>\<open>string | object | IncomingMessage\<close>, or missing. The error of a
  failed name lookup also carries \<^verbatim>\<open>error.hostname\<close> and \<^verbatim>\<open>error.syscall\<close>, which the
  code does not read.
\<close>

datatype resp_data = DUndefined | DJson json | DStream stream

record client_request =
  hostname :: "string option"
  syscall :: "string option"

record axios_response =
  status :: nat
  data :: resp_data

record axios_error =
  code :: "string option"
  error_hostname :: "string option"
  error_syscall :: "string option"
  request :: "client_request option"
  response :: "axios_response option"
  axios_message :: string

text \<open>
  Modelled from the spec: \<^verbatim>\<open>KnownError\<close> (\<^verbatim>\<open>helpers/error\<close>), the user-facing error, an
  \<^verbatim>\<open>Error\<close> that carries the message it is constructed with. Every value thrown here is
  an \<^verbatim>\<open>Error\<close>, so \<^verbatim>\<open>error instanceof Error ? error.message : String(error)\<close> is its
  message.
\<close>

datatype error =
    KnownError string
  | Error string
  | TypeError string
  | SyntaxError string
  | AxiosError axios_error

fun message :: "error \<Rightarrow> string" where
  "message (KnownError m) = m"
| "message (Error m) = m"
| "message (TypeError m) = m"
| "message (SyntaxError m) = m"
| "message (AxiosError e) = axios_message e"

section \<open>The network\<close>

datatype format = Ollama | Openai | Lmstudio

fun format_name :: "format \<Rightarrow> string" where
  "format_name Ollama = ''ollama''"
| "format_name Openai = ''openai''"
| "format_name Lmstudio = ''lmstudio''"

record chat_message =
  role :: string
  content :: string

record sampling_options =
  opt_temperature :: real
  top_p :: real

text \<open>
  The object handed to \<^verbatim>\<open>JSON.stringify\<close> as the request body. A field that the dialect
  does not set is \<open>None\<close>; so is a \<^verbatim>\<open>model\<close> that is \<^verbatim>\<open>undefined\<close>, which
  \<^verbatim>\<open>JSON.stringify\<close> leaves out.
\<close>

record chat_body =
  model :: "string option"
  messages :: "chat_message list"
  stream_flag :: bool
  options :: "sampling_options option"
  temperature :: "real option"

record request =
  url :: string
  http_method :: string
  headers :: "(string \<times> string) list"
  body :: "chat_body option"

text \<open>
  What the code reads of a \<^verbatim>\<open>Response\<close>: \<^verbatim>\<open>ok\<close>, \<^verbatim>\<open>statusText\<close>, \<^verbatim>\<open>body\<close> (null or a
  stream), \<^verbatim>\<open>headers.get('content-type')\<close>, and the outcome of \<^verbatim>\<open>await response.json()\<close>
  (the parsed value, or the error it rejects with).
\<close>

record http_response =
  ok :: bool
  statusText :: string
  resp_body :: "stream option"
  content_type :: "string option"
  json_body :: "error + json"

text \<open>
  \<^verbatim>\<open>fetch\<close> is the environment: from the state of the world and a request it gives the
  response or the error the promise rejects with, and the next state of the world.
  The state of a run also records every request issued, in order.
\<close>

type_synonym 'w fetch = "'w \<Rightarrow> request \<Rightarrow> (error + http_response) \<times> 'w"

text \<open>
  A call of the hosted API's client: the \<^verbatim>\<open>Configuration\<close> it was built with and the
  request object given to \<^verbatim>\<open>createChatCompletion\<close>.
\<close>

record chat_completion_request =
  cc_model :: string
  cc_messages :: "chat_message list"
  cc_n :: int
  cc_stream :: bool

record api_call =
  apiKey :: "string option"
  basePath :: "string option"
  call_request :: chat_completion_request

type_synonym 'w chat_api = "'w \<Rightarrow> api_call \<Rightarrow> (axios_error + stream) \<times> 'w"

text \<open>\<^verbatim>\<open>Date.now()\<close> reads the clock of the world.\<close>

type_synonym 'w clock = "'w \<Rightarrow> nat \<times> 'w"

record 'w st =
  world :: 'w
  sent :: "request list"
  calls :: "api_call list"

definition do_fetch :: "'w fetch \<Rightarrow> request \<Rightarrow> 'w st \<Rightarrow> (error + http_response) \<times> 'w st" where
  "do_fetch fetch rq s =
     (case fetch (world s) rq of
        (r, w') \<Rightarrow> (r, s\<lparr>world := w', sent := sent s @ [rq]\<rparr>))"

definition do_call :: "'w chat_api \<Rightarrow> api_call \<Rightarrow> 'w st \<Rightarrow> (axios_error + stream) \<times> 'w st" where
  "do_call api c s =
     (case api (world s) c of
        (r, w') \<Rightarrow> (r, s\<lparr>world := w', calls := calls s @ [c]\<rparr>))"

definition date_now :: "'w clock \<Rightarrow> 'w st \<Rightarrow> nat \<times> 'w st" where
  "date_now clock s = (case clock (world s) of (t, w') \<Rightarrow> (t, s\<lparr>world := w'\<rparr>))"

section \<open>LocalStreamHandler\<close>

record LocalStreamResponse =
  lsr_stream :: stream
  lsr_format :: format

definition chat_url :: "string \<Rightarrow> format \<Rightarrow> string" where
  "chat_url endpoint fmt =
     (case fmt of
        Ollama \<Rightarrow> endpoint @ ''/api/chat''
      | Lmstudio \<Rightarrow> endpoint @ ''/v1/chat/completions''
      | Openai \<Rightarrow> endpoint @ ''/chat/completions'')"

definition chat_request_body :: "format \<Rightarrow> string option \<Rightarrow> chat_message list \<Rightarrow> chat_body" where
  "chat_request_body fmt mdl msgs =
     (case fmt of
        Ollama \<Rightarrow> \<lparr>model = mdl, messages = msgs, stream_flag = True,
                   options = Some \<lparr>opt_temperature = 7 / 10, top_p = 9 / 10\<rparr>,
                   temperature = None\<rparr>
      | Lmstudio \<Rightarrow> \<lparr>model = mdl, messages = msgs, stream_flag = True,
                     options = None, temperature = Some (7 / 10)\<rparr>
      | Openai \<Rightarrow> \<lparr>model = mdl, messages = msgs, stream_flag = True,
                   options = None, temperature = None\<rparr>)"

definition post :: "string \<Rightarrow> chat_body \<Rightarrow> request" where
  "post u b = \<lparr>url = u, http_method = ''POST'',
               headers = [(''Content-Type'', ''application/json'')], body = Some b\<rparr>"

definition get :: "string \<Rightarrow> request" where
  "get u = \<lparr>url = u, http_method = ''GET'', headers = [], body = None\<rparr>"

text \<open>
  Lines 95 to 111 of \<^verbatim>\<open>createStreamWithFormat\<close>: the body stream that the first response is
  accepted with, if it is.
\<close>

definition is_stream_type :: "http_response \<Rightarrow> bool" where
  "is_stream_type r =
     (let contentType = or_default (content_type r) []
      in str_includes contentType ''application/x-ndjson'' \<or> str_includes contentType ''text/event-stream'')"

definition accept_stream :: "format \<Rightarrow> http_response \<Rightarrow> stream option" where
  "accept_stream fmt r =
     (case resp_body r of
        None \<Rightarrow> None
      | Some b \<Rightarrow>
          if ok r \<and> fmt = Ollama then (if is_stream_type r then Some b else None)
          else if ok r then Some b
          else None)"

text \<open>The \<^verbatim>\<open>Readable\<close> whose \<^verbatim>\<open>read\<close> pushes one chunk and then \<^verbatim>\<open>null\<close>.\<close>

definition fakeStream :: "(json \<Rightarrow> string) \<Rightarrow> json \<Rightarrow> stream" where
  "fakeStream stringify j = [''data: '' @ stringify j @ nl]"

text \<open>
  \<^verbatim>\<open>createStreamWithFormat\<close>. \<^verbatim>\<open>JSON.stringify\<close> is the parameter \<open>stringify\<close>. The
  \<^verbatim>\<open>default\<close> branch of the \<^verbatim>\<open>switch\<close> is not reached, since a format is one of the
  three dialects; a rejected \<^verbatim>\<open>fetch\<close> or \<^verbatim>\<open>response.json()\<close> passes through the
  \<^verbatim>\<open>catch\<close> that throws it again.
\<close>

definition createStreamWithFormat ::
  "'w fetch \<Rightarrow> (json \<Rightarrow> string) \<Rightarrow> string \<Rightarrow> string option \<Rightarrow> chat_message list \<Rightarrow> format
     \<Rightarrow> 'w st \<Rightarrow> (error + LocalStreamResponse) \<times> 'w st" where
  "createStreamWithFormat fetch stringify endpoint mdl msgs fmt s =
     (let u = chat_url endpoint fmt; b = chat_request_body fmt mdl msgs
      in case do_fetch fetch (post u b) s of
           (Inl err, s1) \<Rightarrow> (Inl err, s1)
         | (Inr r, s1) \<Rightarrow>
             (case accept_stream fmt r of
                Some strm \<Rightarrow> (Inr \<lparr>lsr_stream = strm, lsr_format = fmt\<rparr>, s1)
              | None \<Rightarrow>
                  if fmt = Ollama then
                    (case do_fetch fetch (post u (b\<lparr>stream_flag := False\<rparr>)) s1 of
                       (Inl err, s2) \<Rightarrow> (Inl err, s2)
                     | (Inr r2, s2) \<Rightarrow>
                         if ok r2 then
                           (case json_body r2 of
                              Inl err \<Rightarrow> (Inl err, s2)
                            | Inr j \<Rightarrow>
                                (Inr \<lparr>lsr_stream = fakeStream stringify j, lsr_format = fmt\<rparr>, s2))
                         else (Inl (Error (format_name fmt @ '' request failed (non-stream): ''
                                            @ statusText r2)), s2))
                  else (Inl (Error (format_name fmt @ '' request failed: '' @ statusText r)), s1)))"

definition exhausted :: "string \<Rightarrow> error" where
  "exhausted endpoint =
     KnownError (''Failed to connect to any local model server at '' @ endpoint
       @ ''. Supported formats: Ollama, LM Studio, OpenAI-compatible'')"

text \<open>The \<^verbatim>\<open>for (const fmt of formats)\<close> loop of \<^verbatim>\<open>createStream\<close> and the throw after it.\<close>

fun try_formats ::
  "'w fetch \<Rightarrow> (json \<Rightarrow> string) \<Rightarrow> string \<Rightarrow> string option \<Rightarrow> chat_message list \<Rightarrow> format list
     \<Rightarrow> 'w st \<Rightarrow> (error + LocalStreamResponse) \<times> 'w st" where
  "try_formats fetch stringify endpoint mdl msgs [] s = (Inl (exhausted endpoint), s)"
| "try_formats fetch stringify endpoint mdl msgs (fmt # fmts) s =
     (case createStreamWithFormat fetch stringify endpoint mdl msgs fmt s of
        (Inr result, s1) \<Rightarrow> (Inr result, s1)
      | (Inl err, s1) \<Rightarrow> try_formats fetch stringify endpoint mdl msgs fmts s1)"

definition formats :: "format list" where
  "formats = [Ollama, Lmstudio, Openai]"

definition createStream ::
  "'w fetch \<Rightarrow> (json \<Rightarrow> string) \<Rightarrow> string \<Rightarrow> string option \<Rightarrow> chat_message list \<Rightarrow> format option
     \<Rightarrow> 'w st \<Rightarrow> (error + LocalStreamResponse) \<times> 'w st" where
  "createStream fetch stringify endpoint mdl msgs pinned s =
     (case pinned of
        Some fmt \<Rightarrow> createStreamWithFormat fetch stringify endpoint mdl msgs fmt s
      | None \<Rightarrow> try_formats fetch stringify endpoint mdl msgs formats s)"

subsection \<open>listModels\<close>

text \<open>The object \<^verbatim>\<open>{ id: ..., name: ... }\<close> that a transform builds for one listed model.\<close>

record model_entry =
  entry_id :: "json option"
  entry_name :: "json option"

text \<open>
  The property read \<^verbatim>\<open>v.k\<close> on a parsed value, for the keys read here (\<^verbatim>\<open>models\<close>,
  \<^verbatim>\<open>data\<close>, \<^verbatim>\<open>name\<close>, \<^verbatim>\<open>id\<close>), which no prototype defines: reading from \<^verbatim>\<open>null\<close>
  throws, an object gives its own property, anything else gives \<^verbatim>\<open>undefined\<close>.
\<close>

fun get_prop :: "json \<Rightarrow> string \<Rightarrow> error + json option" where
  "get_prop JNull k = Inl (TypeError (''Cannot read properties of null (reading '' @ k @ '')''))"
| "get_prop (JObj kvs) k = Inr (map_of kvs k)"
| "get_prop v k = Inr None"

text \<open>\<^verbatim>\<open>xs.map((m) => ({ id: m.k, name: m.k }))\<close> on an array.\<close>

fun map_entries :: "string \<Rightarrow> json list \<Rightarrow> error + model_entry list" where
  "map_entries k [] = Inr []"
| "map_entries k (m # ms) =
     (case get_prop m k of
        Inl err \<Rightarrow> Inl err
      | Inr v \<Rightarrow>
          (case map_entries k ms of
             Inl err \<Rightarrow> Inl err
           | Inr es \<Rightarrow> Inr (\<lparr>entry_id = v, entry_name = v\<rparr> # es)))"

text \<open>
  \<^verbatim>\<open>(data) => data.field?.map((m) => ({ id: m.k, name: m.k })) || []\<close>. The optional call
  stops at \<^verbatim>\<open>undefined\<close> and \<^verbatim>\<open>null\<close> only: any other value that is not an array has no
  callable \<^verbatim>\<open>map\<close>.
\<close>

definition transform :: "string \<Rightarrow> string \<Rightarrow> json \<Rightarrow> error + model_entry list" where
  "transform field k d =
     (case get_prop d field of
        Inl err \<Rightarrow> Inl err
      | Inr None \<Rightarrow> Inr []
      | Inr (Some JNull) \<Rightarrow> Inr []
      | Inr (Some (JArr ms)) \<Rightarrow> map_entries k ms
      | Inr (Some v) \<Rightarrow> Inl (TypeError (''data.'' @ field @ ''?.map is not a function'')))"

type_synonym probe = "format \<times> string \<times> (json \<Rightarrow> error + model_entry list)"

definition model_probes :: "string \<Rightarrow> probe list" where
  "model_probes endpoint =
     [(Ollama, endpoint @ ''/api/tags'', transform ''models'' ''name''),
      (Lmstudio, endpoint @ ''/v1/models'', transform ''data'' ''id''),
      (Openai, endpoint @ ''/models'', transform ''data'' ''id'')]"

text \<open>The loop of \<^verbatim>\<open>listModels\<close> and the \<^verbatim>\<open>return []\<close> after it.\<close>

fun probe_formats :: "'w fetch \<Rightarrow> probe list \<Rightarrow> 'w st \<Rightarrow> (error + model_entry list) \<times> 'w st" where
  "probe_formats fetch [] s = (Inr [], s)"
| "probe_formats fetch ((fmt, u, tr) # rest) s =
     (case do_fetch fetch (get u) s of
        (Inl err, s1) \<Rightarrow> probe_formats fetch rest s1
      | (Inr r, s1) \<Rightarrow>
          if ok r then
            (case json_body r of
               Inl err \<Rightarrow> probe_formats fetch rest s1
             | Inr d \<Rightarrow>
                 (case tr d of
                    Inl err \<Rightarrow> probe_formats fetch rest s1
                  | Inr ms \<Rightarrow> (Inr ms, s1)))
          else probe_formats fetch rest s1)"

definition listModels :: "'w fetch \<Rightarrow> string \<Rightarrow> 'w st \<Rightarrow> (error + model_entry list) \<times> 'w st" where
  "listModels fetch endpoint s = probe_formats fetch (model_probes endpoint) s"

section \<open>Providers\<close>

datatype prompt = Text string | Messages "chat_message list"

record params =
  prompt :: prompt
  number :: "int option"
  p_model :: "string option"
  key :: "string option"
  apiEndpoint :: "string option"

text \<open>\<^verbatim>\<open>Array.isArray(prompt) ? prompt : [{ role: 'user', content: prompt }]\<close>\<close>

definition as_messages :: "prompt \<Rightarrow> chat_message list" where
  "as_messages p = (case p of Messages ms \<Rightarrow> ms | Text t \<Rightarrow> [\<lparr>role = ''user'', content = t\<rparr>])"

record Model =
  model_id :: "json option"
  object :: string
  created :: nat
  owned_by :: string

subsection \<open>OpenAIProvider\<close>

definition chat_request :: "params \<Rightarrow> chat_completion_request" where
  "chat_request p =
     \<lparr>cc_model = or_default (p_model p) ''gpt-4o-mini'',
      cc_messages = as_messages (prompt p),
      cc_n = min (case number p of None \<Rightarrow> 1 | Some k \<Rightarrow> k) 10,
      cc_stream = True\<rparr>"

text \<open>
  Modelled from the spec: \<^verbatim>\<open>streamToString\<close> (\<^verbatim>\<open>helpers/stream-to-string\<close>), which
  converts an incoming byte stream into a fully buffered string.
\<close>

definition streamToString :: "stream \<Rightarrow> string" where
  "streamToString chunks = concat chunks"

text \<open>An interpolated \<^verbatim>\<open>${v}\<close> of a string that may be \<^verbatim>\<open>undefined\<close>.\<close>

definition interpolate :: "string option \<Rightarrow> string" where
  "interpolate v = (case v of None \<Rightarrow> ''undefined'' | Some t \<Rightarrow> t)"

text \<open>
  Lines 69 to 80: \<^verbatim>\<open>message\<close> after the response stream has been buffered and, when it
  parses, replaced by the parsed value.
\<close>

definition error_body :: "(string \<Rightarrow> json option) \<Rightarrow> axios_error \<Rightarrow> json option" where
  "error_body parse err =
     (case response err of
        None \<Rightarrow> None
      | Some r \<Rightarrow>
          (case data r of
             DUndefined \<Rightarrow> None
           | DJson j \<Rightarrow> Some j
           | DStream chunks \<Rightarrow>
               (let text = streamToString chunks
                in case parse text of Some j \<Rightarrow> Some j | None \<Rightarrow> Some (JStr text))))"

text \<open>
  The text that \<^verbatim>\<open>'\n\n' + messageString\<close> appends, where
  \<^verbatim>\<open>messageString = message && JSON.stringify(message, null, 2)\<close>: a falsy \<^verbatim>\<open>message\<close>
  is itself converted to a string.
\<close>

fun message_string :: "(json \<Rightarrow> string) \<Rightarrow> json option \<Rightarrow> string" where
  "message_string pretty None = ''undefined''"
| "message_string pretty (Some JNull) = ''null''"
| "message_string pretty (Some (JBool b)) = (if b then pretty (JBool b) else ''false'')"
| "message_string pretty (Some (JNum x)) = (if x \<noteq> 0 then pretty (JNum x) else ''0'')"
| "message_string pretty (Some (JStr t)) = (if t \<noteq> [] then pretty (JStr t) else [])"
| "message_string pretty (Some (JArr xs)) = pretty (JArr xs)"
| "message_string pretty (Some (JObj kvs)) = pretty (JObj kvs)"

text \<open>
  The text of the first template of the 429 branch, as \<^verbatim>\<open>dedent\<close> leaves it: without
  the indentation and without the line breaks at its two ends.
\<close>

definition quota_text :: string where
  "quota_text =
     ''Request to OpenAI failed with status 429. This is due to incorrect billing setup or excessive quota usage. Please follow this guide to fix it: https://help.openai.com/en/articles/6891831-error-code-429-you-exceeded-your-current-quota-please-check-your-plan-and-billing-details''
     @ nl @ nl
     @ ''You can activate billing here: https://platform.openai.com/account/billing/overview . Make sure to add a payment method if not under an active grant from OpenAI.''
     @ nl @ nl
     @ ''Full message from OpenAI:''"

text \<open>The \<^verbatim>\<open>catch\<close> block of \<^verbatim>\<open>OpenAIProvider.generateCompletion\<close>: the error it throws.\<close>

definition classify :: "(string \<Rightarrow> json option) \<Rightarrow> (json \<Rightarrow> string) \<Rightarrow> axios_error \<Rightarrow> error" where
  "classify parse pretty err =
     (if code err = Some ''ENOTFOUND'' then
        (case request err of
           None \<Rightarrow> TypeError ''Cannot read properties of undefined (reading hostname)''
         | Some rq \<Rightarrow>
             KnownError (''Error connecting to '' @ interpolate (hostname rq) @ '' (''
               @ interpolate (syscall rq) @ ''). Are you connected to the internet?''))
      else
        (let msg = error_body parse err; messageString = message_string pretty msg
         in case response err of
              None \<Rightarrow> AxiosError err
            | Some r \<Rightarrow>
                if status r = 429 then KnownError (quota_text @ nl @ nl @ messageString @ nl)
                else if truthy msg then
                  KnownError (''Request to OpenAI failed with status '' @ show_nat (status r) @ '':''
                    @ nl @ nl @ messageString @ nl)
                else AxiosError err))"

definition OpenAIProvider_generateCompletion ::
  "'w chat_api \<Rightarrow> (string \<Rightarrow> json option) \<Rightarrow> (json \<Rightarrow> string) \<Rightarrow> params \<Rightarrow> 'w st
     \<Rightarrow> (error + stream) \<times> 'w st" where
  "OpenAIProvider_generateCompletion api parse pretty p s =
     (case do_call api \<lparr>apiKey = key p, basePath = apiEndpoint p, call_request = chat_request p\<rparr> s of
        (Inr completion, s1) \<Rightarrow> (Inr completion, s1)
      | (Inl err, s1) \<Rightarrow> (Inl (classify parse pretty err), s1))"

subsection \<open>LocalProvider\<close>

definition default_endpoint :: string where
  "default_endpoint = ''http://localhost:11434''"

definition connect_failed :: "string \<Rightarrow> error \<Rightarrow> error" where
  "connect_failed localEndpoint err =
     KnownError (''Failed to connect to local model server at '' @ localEndpoint
       @ ''. Make sure your local model server (Ollama, LM Studio, etc.) is running.''
       @ nl @ nl @ ''Error: '' @ message err)"

text \<open>\<^verbatim>\<open>const localModel = model || key\<close> and \<^verbatim>\<open>const localEndpoint = apiEndpoint || 'http://localhost:11434'\<close>\<close>

definition localModel :: "params \<Rightarrow> string option" where
  "localModel p = or_else (p_model p) (key p)"

definition localEndpoint :: "string option \<Rightarrow> string" where
  "localEndpoint endpoint = or_default endpoint default_endpoint"

definition LocalProvider_generateCompletion ::
  "'w fetch \<Rightarrow> (json \<Rightarrow> string) \<Rightarrow> params \<Rightarrow> 'w st \<Rightarrow> (error + stream) \<times> 'w st" where
  "LocalProvider_generateCompletion fetch stringify p s =
     (case createStream fetch stringify (localEndpoint (apiEndpoint p)) (localModel p)
             (as_messages (prompt p)) None s of
        (Inr result, s1) \<Rightarrow> (Inr (lsr_stream result), s1)
      | (Inl err, s1) \<Rightarrow> (Inl (connect_failed (localEndpoint (apiEndpoint p)) err), s1))"

text \<open>One \<^verbatim>\<open>{ id, object: 'model', created: Date.now(), owned_by: 'local' }\<close> per id, in order.\<close>

fun describe :: "'w clock \<Rightarrow> json option list \<Rightarrow> 'w st \<Rightarrow> Model list \<times> 'w st" where
  "describe clock [] s = ([], s)"
| "describe clock (i # ids) s =
     (case date_now clock s of
        (t, s1) \<Rightarrow>
          (case describe clock ids s1 of
             (ms, s2) \<Rightarrow>
               (\<lparr>model_id = i, object = ''model'', created = t, owned_by = ''local''\<rparr> # ms, s2)))"

definition default_ids :: "string list" where
  "default_ids =
     [''llama2'', ''llama2:7b'', ''llama2:13b'', ''llama2:70b'', ''llama2:7b-chat'',
      ''llama2:13b-chat'', ''llama2:70b-chat'', ''codellama'', ''codellama:7b'',
      ''codellama:34b-code-q5_K_M'', ''codellama:13b'', ''codellama:34b'',
      ''nous-hermes2:34b'', ''nous-hermes:34b-instruct'']"

definition getDefaultModels :: "'w clock \<Rightarrow> 'w st \<Rightarrow> Model list \<times> 'w st" where
  "getDefaultModels clock s = describe clock (map (\<lambda>i. Some (JStr i)) default_ids) s"

text \<open>\<^verbatim>\<open>model.id || model.name\<close>\<close>

definition entry_ident :: "model_entry \<Rightarrow> json option" where
  "entry_ident m = (if truthy (entry_id m) then entry_id m else entry_name m)"

definition LocalProvider_getModels ::
  "'w fetch \<Rightarrow> 'w clock \<Rightarrow> string option \<Rightarrow> string option \<Rightarrow> 'w st \<Rightarrow> (error + Model list) \<times> 'w st" where
  "LocalProvider_getModels fetch clock k endpoint s =
     (case listModels fetch (localEndpoint endpoint) s of
        (Inr models, s1) \<Rightarrow>
          (case describe clock (map entry_ident models) s1 of (ms, s2) \<Rightarrow> (Inr ms, s2))
      | (Inl err, s1) \<Rightarrow>
          (case getDefaultModels clock s1 of (ms, s2) \<Rightarrow> (Inr ms, s2)))"

subsection \<open>The registry\<close>

text \<open>
  The two instances are created once, when the module is loaded; an instance is known by
  its address in the heap. \<^verbatim>\<open>providers\<close> is an object literal, so a property read on
  it that finds no own property goes on to \<^verbatim>\<open>Object.prototype\<close>.
\<close>

datatype provider_instance = OpenAIProvider | LocalProvider

fun name :: "provider_instance \<Rightarrow> string" where
  "name OpenAIProvider = ''openai''"
| "name LocalProvider = ''local''"

type_synonym heap = "provider_instance list"

definition new :: "provider_instance \<Rightarrow> heap \<Rightarrow> nat \<times> heap" where
  "new ob h = (length h, h @ [ob])"

definition module_init :: "(string \<times> nat) list \<times> heap" where
  "module_init =
     (case new OpenAIProvider [] of
        (a, h1) \<Rightarrow>
          (case new LocalProvider h1 of
             (b, h2) \<Rightarrow> ([(''openai'', a), (''local'', b)], h2)))"

definition providers :: "(string \<times> nat) list" where
  "providers = fst module_init"

definition object_prototype_keys :: "string list" where
  "object_prototype_keys =
     [''constructor'', ''__defineGetter__'', ''__defineSetter__'', ''hasOwnProperty'',
      ''__lookupGetter__'', ''__lookupSetter__'', ''isPrototypeOf'', ''propertyIsEnumerable'',
      ''toString'', ''valueOf'', ''__proto__'', ''toLocaleString'']"

text \<open>
  What \<^verbatim>\<open>providers[name]\<close> evaluates to: a provider instance, the member of
  \<^verbatim>\<open>Object.prototype\<close> of that name (a function or an object, so truthy), or
  \<^verbatim>\<open>undefined\<close>.
\<close>

datatype looked_up = Instance nat | Inherited string

definition get_property :: "(string \<times> nat) list \<Rightarrow> string \<Rightarrow> looked_up option" where
  "get_property obj k =
     (case map_of obj k of
        Some a \<Rightarrow> Some (Instance a)
      | None \<Rightarrow> if k \<in> set object_prototype_keys then Some (Inherited k) else None)"

definition getProvider :: "string \<Rightarrow> error + looked_up" where
  "getProvider nm =
     (case get_property providers nm of
        None \<Rightarrow> Inl (KnownError (''Unknown provider: '' @ nm))
      | Some provider \<Rightarrow> Inr provider)"

section \<open>Outcomes of a model-listing probe\<close>

text \<open>
  The outcomes of one probe that the loop of \<^verbatim>\<open>listModels\<close> passes over: the request
  rejects, the status is not 2xx, the body is not JSON, or the transform throws.
\<close>

definition skipped :: "(json \<Rightarrow> error + model_entry list) \<Rightarrow> error + http_response \<Rightarrow> bool" where
  "skipped tr out =
     (case out of
        Inl err \<Rightarrow> True
      | Inr r \<Rightarrow> \<not> ok r \<or> (case json_body r of Inl err \<Rightarrow> True | Inr d \<Rightarrow> isl (tr d)))"

section \<open>Requests of a negotiation\<close>

text \<open>
  A chat request of the negotiation for an endpoint, model and message list: a POST to
  the chat URL of one of the three dialects whose body carries that model and those
  messages.
\<close>

definition chat_request_for :: "string \<Rightarrow> string option \<Rightarrow> chat_message list \<Rightarrow> request \<Rightarrow> bool" where
  "chat_request_for endpoint mdl msgs rq =
     (case body rq of
        None \<Rightarrow> False
      | Some b \<Rightarrow>
          http_method rq = ''POST'' \<and> model b = mdl \<and> messages b = msgs
          \<and> (url rq = chat_url endpoint Ollama \<or> url rq = chat_url endpoint Lmstudio
               \<or> url rq = chat_url endpoint Openai))"

section \<open>Example environments\<close>

text \<open>
  Concrete worlds on which the operations are run below. The world is a counter of the
  requests served and of the clock readings taken.
\<close>

definition s0 :: "nat st" where
  "s0 = \<lparr>world = 0, sent = [], calls = []\<rparr>"

definition tick :: "nat clock" where
  "tick w = (w, Suc w)"

text \<open>No server is listening: every \<^verbatim>\<open>fetch\<close> rejects.\<close>

definition refuse_all :: "nat fetch" where
  "refuse_all w rq = (Inl (TypeError ''fetch failed''), Suc w)"

definition not_found :: http_response where
  "not_found = \<lparr>ok = False, statusText = ''Not Found'', resp_body = Some [''404 page not found''],
                 content_type = Some ''text/plain'', json_body = Inl (SyntaxError ''Unexpected token'')\<rparr>"

text \<open>A server that answers every request with 404.\<close>

definition always_404 :: "nat fetch" where
  "always_404 w rq = (Inr not_found, Suc w)"

text \<open>A server that speaks the lmstudio dialect only, at \<^verbatim>\<open>http://localhost:1234\<close>.\<close>

definition lmstudio_reply :: http_response where
  "lmstudio_reply = \<lparr>ok = True, statusText = ''OK'', resp_body = Some [''data: {}'', ''data: [DONE]''],
                      content_type = Some ''text/event-stream'', json_body = Inl (SyntaxError ''Unexpected token'')\<rparr>"

definition lmstudio_server :: "nat fetch" where
  "lmstudio_server w rq =
     (if url rq = ''http://localhost:1234/v1/chat/completions'' \<and> http_method rq = ''POST''
      then (Inr lmstudio_reply, Suc w) else (Inr not_found, Suc w))"

text \<open>
  An ollama server that answers a chat request with one JSON document, whether or not
  streaming was asked for.
\<close>

definition ollama_plain_reply :: http_response where
  "ollama_plain_reply = \<lparr>ok = True, statusText = ''OK'', resp_body = Some [''{}''],
                          content_type = Some ''application/json'', json_body = Inr (JObj [])\<rparr>"

definition ollama_plain_server :: "nat fetch" where
  "ollama_plain_server w rq =
     (if url rq = ''http://localhost:11434/api/chat'' then (Inr ollama_plain_reply, Suc w)
      else (Inr not_found, Suc w))"

text \<open>An ollama server that streams newline-delimited JSON.\<close>

definition ollama_stream_reply :: http_response where
  "ollama_stream_reply = \<lparr>ok = True, statusText = ''OK'', resp_body = Some [''{}'', ''{}''],
                           content_type = Some ''application/x-ndjson'',
                           json_body = Inl (SyntaxError ''Unexpected token'')\<rparr>"

definition ollama_stream_server :: "nat fetch" where
  "ollama_stream_server w rq =
     (if url rq = ''http://localhost:11434/api/chat'' then (Inr ollama_stream_reply, Suc w)
      else (Inr not_found, Suc w))"

text \<open>A request to the local provider with no model, an empty key and no endpoint.\<close>

definition no_model :: params where
  "no_model = \<lparr>prompt = Text ''list files'', number = None, p_model = None,
                key = Some [], apiEndpoint = None\<rparr>"

text \<open>A request to the local provider whose key carries the model name.\<close>

definition key_as_model :: params where
  "key_as_model = \<lparr>prompt = Text ''list files'', number = None, p_model = Some [],
                    key = Some ''phi'', apiEndpoint = None\<rparr>"

text \<open>A server whose \<^verbatim>\<open>/api/tags\<close> answers with an object that has no \<^verbatim>\<open>models\<close>.\<close>

definition tags_without_models :: "nat fetch" where
  "tags_without_models w rq =
     (if url rq = ''http://localhost:11434/api/tags''
      then (Inr \<lparr>ok = True, statusText = ''OK'', resp_body = Some [''{}''],
                 content_type = Some ''application/json'', json_body = Inr (JObj [])\<rparr>, Suc w)
      else (Inr not_found, Suc w))"

text \<open>
  Stand-ins for \<^verbatim>\<open>JSON.stringify\<close> and \<^verbatim>\<open>JSON.parse\<close> on the few values the examples
  use; the operations above take the real ones as parameters.
\<close>

fun example_stringify :: "json \<Rightarrow> string" where
  "example_stringify JNull = ''null''"
| "example_stringify (JBool b) = (if b then ''true'' else ''false'')"
| "example_stringify (JArr []) = ''[]''"
| "example_stringify (JObj []) = ''{}''"
| "example_stringify (JStr t) = [CHR 0x22] @ t @ [CHR 0x22]"
| "example_stringify v = ''?''"

definition example_parse :: "string \<Rightarrow> json option" where
  "example_parse t =
     (if t = ''null'' then Some JNull
      else if t = ''{}'' then Some (JObj [])
      else if t = ''[]'' then Some (JArr [])
      else None)"

definition list_files :: params where
  "list_files = \<lparr>prompt = Text ''list files'', number = Some 50, p_model = None,
                  key = Some ''sk-test'', apiEndpoint = Some ''https://api.openai.com/v1''\<rparr>"

text \<open>
  Failures of the hosted API, as its client reports them. When the name of the host does
  not resolve, the client passes on the error of the lookup: the code, the host name and
  the system call are properties of the error itself, and the request object it attaches
  has neither a \<^verbatim>\<open>hostname\<close> nor a \<^verbatim>\<open>syscall\<close>. When the server answers with an error
  status, the error has no code and carries the response, whose data is the body stream.
\<close>

definition dns_failure :: axios_error where
  "dns_failure = \<lparr>code = Some ''ENOTFOUND'',
                   error_hostname = Some ''api.openai.com'', error_syscall = Some ''getaddrinfo'',
                   request = Some \<lparr>hostname = None, syscall = None\<rparr>,
                   response = None, axios_message = ''getaddrinfo ENOTFOUND api.openai.com''\<rparr>"

definition http_failure :: "nat \<Rightarrow> string \<Rightarrow> axios_error" where
  "http_failure st text =
     \<lparr>code = None, error_hostname = None, error_syscall = None,
      request = Some \<lparr>hostname = None, syscall = None\<rparr>,
      response = Some \<lparr>status = st, data = DStream [text]\<rparr>,
      axios_message = ''Request failed with status code '' @ show_nat st\<rparr>"

definition failing_api :: "axios_error \<Rightarrow> nat chat_api" where
  "failing_api err w c = (Inl err, Suc w)"

definition working_api :: "nat chat_api" where
  "working_api w c = (Inr [''data: {}'', ''data: [DONE]''], Suc w)"

section \<open>Substrings\<close>

lemma starts_with_append: "starts_with (t @ s) t"
  by (induction t) auto

lemma starts_with_extend: "starts_with s t \<Longrightarrow> starts_with (s @ q) t"
  by (induction s t rule: starts_with.induct) auto

lemma str_includes_here: "str_includes (t @ s) t"
  using starts_with_append [of t s] by (cases "t @ s") auto

lemma str_includes_append_left: "str_includes s t \<Longrightarrow> str_includes (p @ s) t"
  by (induction p) auto

lemma str_includes_append_right: "str_includes s t \<Longrightarrow> str_includes (s @ q) t"
proof (induction s)
  case Nil
  then show ?case using str_includes_here [of "[]" q] by simp
next
  case (Cons c s)
  then show ?case using starts_with_extend [of "c # s" t q] by auto
qed

lemma str_includes_mid: "str_includes (p @ t @ q) t"
  by (rule str_includes_append_left) (rule str_includes_here)

section \<open>Model listing never fails\<close>

lemma probe_formats_returns: "\<exists>ms s'. probe_formats fetch ps s = (Inr ms, s')"
proof (induction ps arbitrary: s)
  case Nil
  then show ?case by simp
next
  case (Cons p ps)
  obtain fmt u tr where p: "p = (fmt, u, tr)" by (cases p)
  show ?case using Cons.IH
    by (simp add: p split: prod.splits sum.splits)
qed

lemma probe_skipped:
  assumes "fetch (world s) (get u) = (out, w1)" and "skipped tr out"
  shows "probe_formats fetch ((fmt, u, tr) # rest) s
           = probe_formats fetch rest (s\<lparr>world := w1, sent := sent s @ [get u]\<rparr>)"
  using assms
  by (auto simp: do_fetch_def skipped_def split: sum.splits)

lemma probe_field_missing:
  assumes "fetch (world s) (get u) = (Inr r, w1)" and "ok r"
    and "json_body r = Inr (JObj kvs)" and "map_of kvs field = None"
  shows "probe_formats fetch ((fmt, u, transform field k) # rest) s
           = (Inr [], s\<lparr>world := w1, sent := sent s @ [get u]\<rparr>)"
  using assms by (simp add: do_fetch_def transform_def)

lemma map_entries_throws: "isl (map_entries k ms) \<longleftrightarrow> JNull \<in> set ms"
proof (induction ms)
  case Nil
  then show ?case by simp
next
  case (Cons m ms)
  then show ?case by (cases m) (auto split: sum.splits)
qed

lemma transform_throws:
  "isl (transform field k d) \<longleftrightarrow>
     d = JNull
     \<or> (\<exists>kvs v. d = JObj kvs \<and> map_of kvs field = Some v \<and> v \<noteq> JNull
           \<and> (case v of JArr ms \<Rightarrow> JNull \<in> set ms | _ \<Rightarrow> True))"
  by (cases d) (auto simp: transform_def map_entries_throws split: option.splits json.splits)

lemma listModels_all_skipped:
  assumes h: "fetch (world s) (get (endpoint @ ''/api/tags'')) = (o1, w1)
           \<and> skipped (transform ''models'' ''name'') o1
           \<and> fetch w1 (get (endpoint @ ''/v1/models'')) = (o2, w2)
           \<and> skipped (transform ''data'' ''id'') o2
           \<and> fetch w2 (get (endpoint @ ''/models'')) = (o3, w3)
           \<and> skipped (transform ''data'' ''id'') o3"
  shows "listModels fetch endpoint s
               = (Inr [], s\<lparr>world := w3,
                             sent := sent s @ [get (endpoint @ ''/api/tags''),
                                               get (endpoint @ ''/v1/models''),
                                               get (endpoint @ ''/models'')]\<rparr>)"
proof -
  let ?s1 = "s\<lparr>world := w1, sent := sent s @ [get (endpoint @ ''/api/tags'')]\<rparr>"
  let ?s2 = "?s1\<lparr>world := w2, sent := sent ?s1 @ [get (endpoint @ ''/v1/models'')]\<rparr>"
  have "listModels fetch endpoint s
          = probe_formats fetch
              ((Ollama, endpoint @ ''/api/tags'', transform ''models'' ''name'')
               # [(Lmstudio, endpoint @ ''/v1/models'', transform ''data'' ''id''),
                  (Openai, endpoint @ ''/models'', transform ''data'' ''id'')]) s"
    by (simp only: listModels_def model_probes_def)
  also have "\<dots> = probe_formats fetch
                 [(Lmstudio, endpoint @ ''/v1/models'', transform ''data'' ''id''),
                  (Openai, endpoint @ ''/models'', transform ''data'' ''id'')] ?s1"
    using h by (intro probe_skipped [where out = o1]) simp_all
  also have "\<dots> = probe_formats fetch [(Openai, endpoint @ ''/models'', transform ''data'' ''id'')] ?s2"
    using h by (intro probe_skipped [where out = o2]) simp_all
  also have "\<dots> = probe_formats fetch [] (?s2\<lparr>world := w3, sent := sent ?s2 @ [get (endpoint @ ''/models'')]\<rparr>)"
    using h by (intro probe_skipped [where out = o3]) simp_all
  also have "\<dots> = (Inr [], s\<lparr>world := w3,
                             sent := sent s @ [get (endpoint @ ''/api/tags''),
                                               get (endpoint @ ''/v1/models''),
                                               get (endpoint @ ''/models'')]\<rparr>)"
    by simp
  finally show ?thesis .
qed

text \<open>
  C9. \<^verbatim>\<open>LocalStreamHandler.listModels\<close> is total and never raises: for every endpoint and
  every behaviour of the network it returns a list. A probe whose request rejects, whose
  status is not 2xx, whose body is not JSON or whose transform throws is passed over and
  the next dialect is probed; a probe whose body is an object without the expected field
  gives the empty list; and when all three probes are passed over, the result is the
  empty list, after exactly the three requests in the order ollama, lmstudio, openai.
\<close>

theorem listModels_total:
  "(\<exists>ms s'. listModels fetch endpoint s = (Inr ms, s'))
   \<and> (\<forall>o1 w1 o2 w2 o3 w3.
         fetch (world s) (get (endpoint @ ''/api/tags'')) = (o1, w1)
           \<and> skipped (transform ''models'' ''name'') o1
           \<and> fetch w1 (get (endpoint @ ''/v1/models'')) = (o2, w2)
           \<and> skipped (transform ''data'' ''id'') o2
           \<and> fetch w2 (get (endpoint @ ''/models'')) = (o3, w3)
           \<and> skipped (transform ''data'' ''id'') o3
         \<longrightarrow> listModels fetch endpoint s
               = (Inr [], s\<lparr>world := w3,
                             sent := sent s @ [get (endpoint @ ''/api/tags''),
                                               get (endpoint @ ''/v1/models''),
                                               get (endpoint @ ''/models'')]\<rparr>))
   \<and> (\<forall>fmt u tr rest out w1.
         fetch (world s) (get u) = (out, w1) \<and> skipped tr out
         \<longrightarrow> probe_formats fetch ((fmt, u, tr) # rest) s
               = probe_formats fetch rest (s\<lparr>world := w1, sent := sent s @ [get u]\<rparr>))
   \<and> (\<forall>fmt u field k rest r w1 kvs.
         fetch (world s) (get u) = (Inr r, w1) \<and> ok r
           \<and> json_body r = Inr (JObj kvs) \<and> map_of kvs field = None
         \<longrightarrow> probe_formats fetch ((fmt, u, transform field k) # rest) s
               = (Inr [], s\<lparr>world := w1, sent := sent s @ [get u]\<rparr>))"
proof (intro conjI allI impI)
  show "\<exists>ms s'. listModels fetch endpoint s = (Inr ms, s')"
    unfolding listModels_def by (rule probe_formats_returns)
next
  fix o1 w1 o2 w2 o3 w3
  assume h: "fetch (world s) (get (endpoint @ ''/api/tags'')) = (o1, w1)
           \<and> skipped (transform ''models'' ''name'') o1
           \<and> fetch w1 (get (endpoint @ ''/v1/models'')) = (o2, w2)
           \<and> skipped (transform ''data'' ''id'') o2
           \<and> fetch w2 (get (endpoint @ ''/models'')) = (o3, w3)
           \<and> skipped (transform ''data'' ''id'') o3"
  show "listModels fetch endpoint s
               = (Inr [], s\<lparr>world := w3,
                             sent := sent s @ [get (endpoint @ ''/api/tags''),
                                               get (endpoint @ ''/v1/models''),
                                               get (endpoint @ ''/models'')]\<rparr>)"
    by (rule listModels_all_skipped [OF h])
next
  fix fmt u tr rest out w1
  assume h: "fetch (world s) (get u) = (out, w1) \<and> skipped tr out"
  show "probe_formats fetch ((fmt, u, tr) # rest) s
               = probe_formats fetch rest (s\<lparr>world := w1, sent := sent s @ [get u]\<rparr>)"
    using h by (intro probe_skipped [where out = out]) simp_all
next
  fix fmt u field k rest r w1 kvs
  assume h: "fetch (world s) (get u) = (Inr r, w1) \<and> ok r
           \<and> json_body r = Inr (JObj kvs) \<and> map_of kvs field = None"
  show "probe_formats fetch ((fmt, u, transform field k) # rest) s
               = (Inr [], s\<lparr>world := w1, sent := sent s @ [get u]\<rparr>)"
    using h by (intro probe_field_missing [where kvs = kvs and r = r]) simp_all
qed

theorem listModels_total_witness:
  "listModels refuse_all ''http://localhost:11434'' s0
     = (Inr [], \<lparr>world = 3,
                 sent = [get ''http://localhost:11434/api/tags'',
                         get ''http://localhost:11434/v1/models'',
                         get ''http://localhost:11434/models''],
                 calls = []\<rparr>)
   \<and> listModels tags_without_models ''http://localhost:11434'' s0
     = (Inr [], \<lparr>world = 1, sent = [get ''http://localhost:11434/api/tags''], calls = []\<rparr>)"
proof
  have "listModels refuse_all ''http://localhost:11434'' s0
     = (Inr [], s0\<lparr>world := 3,
                 sent := sent s0 @ [get (''http://localhost:11434'' @ ''/api/tags''),
                         get (''http://localhost:11434'' @ ''/v1/models''),
                         get (''http://localhost:11434'' @ ''/models'')]\<rparr>)"
    by (rule listModels_total [THEN conjunct2, THEN conjunct1, rule_format,
          of refuse_all s0 _ "Inl (TypeError ''fetch failed'')" 1
             "Inl (TypeError ''fetch failed'')" 2 "Inl (TypeError ''fetch failed'')"])
       (simp add: refuse_all_def skipped_def s0_def)
  then show "listModels refuse_all ''http://localhost:11434'' s0
     = (Inr [], \<lparr>world = 3,
                 sent = [get ''http://localhost:11434/api/tags'',
                         get ''http://localhost:11434/v1/models'',
                         get ''http://localhost:11434/models''],
                 calls = []\<rparr>)"
    by (simp add: s0_def)
next
  have "probe_formats tags_without_models
          ((Ollama, ''http://localhost:11434/api/tags'', transform ''models'' ''name'')
           # [(Lmstudio, ''http://localhost:11434/v1/models'', transform ''data'' ''id''),
              (Openai, ''http://localhost:11434/models'', transform ''data'' ''id'')]) s0
     = (Inr [], s0\<lparr>world := 1, sent := sent s0 @ [get ''http://localhost:11434/api/tags'']\<rparr>)"
    by (rule listModels_total [THEN conjunct2, THEN conjunct2, THEN conjunct2, rule_format,
          where kvs = "[]" and r = "\<lparr>ok = True, statusText = ''OK'', resp_body = Some [''{}''],
                 content_type = Some ''application/json'', json_body = Inr (JObj [])\<rparr>"])
       (simp add: tags_without_models_def s0_def get_def)
  then show "listModels tags_without_models ''http://localhost:11434'' s0
     = (Inr [], \<lparr>world = 1, sent = [get ''http://localhost:11434/api/tags''], calls = []\<rparr>)"
    by (simp only: listModels_def model_probes_def append.simps s0_def)
       (simp add: s0_def)
qed


section \<open>The local provider's model list\<close>

lemma describe_ids: "map model_id (fst (describe clock ids s)) = ids"
proof (induction ids arbitrary: s)
  case Nil
  then show ?case by simp
next
  case (Cons i ids)
  obtain t s1 where d: "date_now clock s = (t, s1)" by (cases "date_now clock s")
  obtain ms s2 where r: "describe clock ids s1 = (ms, s2)" by (cases "describe clock ids s1")
  have "map model_id ms = ids" using Cons.IH [of s1] r by simp
  then show ?case by (simp add: d r)
qed

lemma getDefaultModels_catalog:
  "map model_id (fst (getDefaultModels clock s)) = map (\<lambda>i. Some (JStr i)) default_ids
   \<and> fst (getDefaultModels clock s) \<noteq> []
   \<and> Some (JStr ''llama2'') \<in> set (map model_id (fst (getDefaultModels clock s)))
   \<and> Some (JStr ''codellama'') \<in> set (map model_id (fst (getDefaultModels clock s)))"
proof -
  have m: "map model_id (fst (getDefaultModels clock s)) = map (\<lambda>i. Some (JStr i)) default_ids"
    by (simp only: getDefaultModels_def describe_ids)
  have "map model_id (fst (getDefaultModels clock s)) \<noteq> []"
    by (simp only: m) (simp add: default_ids_def)
  then have n: "fst (getDefaultModels clock s) \<noteq> []" by auto
  show ?thesis
    by (simp only: m n) (simp add: default_ids_def)
qed

lemma getModels_never_raises:
  "\<exists>ms s'. LocalProvider_getModels fetch clock k endpoint s = (Inr ms, s')"
  by (simp add: LocalProvider_getModels_def split: prod.splits sum.splits)

lemma getModels_all_skipped:
  assumes "listModels fetch (localEndpoint endpoint) s = (Inr [], s')"
  shows "LocalProvider_getModels fetch clock k endpoint s = (Inr [], s')"
  using assms by (simp add: LocalProvider_getModels_def)

text \<open>The \<^verbatim>\<open>catch\<close> of \<^verbatim>\<open>getModels\<close> is never entered: the result is always built from
  the list that \<^verbatim>\<open>listModels\<close> returned.\<close>

lemma getModels_from_listModels:
  "\<exists>models s1. listModels fetch (localEndpoint endpoint) s = (Inr models, s1)
     \<and> LocalProvider_getModels fetch clock k endpoint s
         = (case describe clock (map entry_ident models) s1 of (ms, s2) \<Rightarrow> (Inr ms, s2))"
proof -
  obtain models s1 where l: "listModels fetch (localEndpoint endpoint) s = (Inr models, s1)"
    using probe_formats_returns [of fetch "model_probes (localEndpoint endpoint)" s]
    by (auto simp: listModels_def)
  then show ?thesis by (simp add: LocalProvider_getModels_def)
qed

text \<open>Whatever the endpoint, when the three probes are passed over the result is empty.\<close>

lemma getModels_empty_when_all_skipped:
  assumes "fetch (world s) (get (localEndpoint endpoint @ ''/api/tags'')) = (o1, w1)
           \<and> skipped (transform ''models'' ''name'') o1
           \<and> fetch w1 (get (localEndpoint endpoint @ ''/v1/models'')) = (o2, w2)
           \<and> skipped (transform ''data'' ''id'') o2
           \<and> fetch w2 (get (localEndpoint endpoint @ ''/models'')) = (o3, w3)
           \<and> skipped (transform ''data'' ''id'') o3"
  shows "fst (LocalProvider_getModels fetch clock k endpoint s) = Inr []"
  by (simp add: getModels_all_skipped [OF listModels_all_skipped [OF assms]])

text \<open>
  C1. When all three probes of the model listing fail, \<^verbatim>\<open>LocalProvider.getModels\<close> does
  not raise, but what it returns is the empty list and not the built-in catalog:
  \<^verbatim>\<open>listModels\<close> absorbs every failure and returns \<^verbatim>\<open>[]\<close>, so the \<^verbatim>\<open>catch\<close> that
  returns \<^verbatim>\<open>getDefaultModels()\<close> is never entered. Here no server is listening.
\<close>

theorem getModels_unreachable_server:
  "LocalProvider_getModels refuse_all tick (Some ''sk-test'') (Some ''http://localhost:11434'') s0
     = (Inr [], \<lparr>world = 3,
                 sent = [get ''http://localhost:11434/api/tags'',
                         get ''http://localhost:11434/v1/models'',
                         get ''http://localhost:11434/models''],
                 calls = []\<rparr>)"
  by (simp add: LocalProvider_getModels_def localEndpoint_def or_default_def listModels_def
        model_probes_def do_fetch_def refuse_all_def s0_def)

section \<open>The provider registry\<close>

lemma getProvider_registered:
  "getProvider ''openai'' = Inr (Instance 0) \<and> getProvider ''local'' = Inr (Instance 1)
   \<and> snd module_init ! 0 = OpenAIProvider \<and> snd module_init ! 1 = LocalProvider"
  by (simp add: getProvider_def get_property_def providers_def module_init_def new_def)

lemma getProvider_gemini: "getProvider ''gemini'' = Inl (KnownError ''Unknown provider: gemini'')"
  by (simp add: getProvider_def get_property_def providers_def module_init_def new_def object_prototype_keys_def)

lemma getProvider_unknown:
  "nm \<noteq> ''openai'' \<Longrightarrow> nm \<noteq> ''local'' \<Longrightarrow> nm \<notin> set object_prototype_keys
     \<Longrightarrow> getProvider nm = Inl (KnownError (''Unknown provider: '' @ nm))"
  by (simp add: getProvider_def get_property_def providers_def module_init_def new_def)

lemma getProvider_inherited:
  "nm \<in> set object_prototype_keys \<Longrightarrow> getProvider nm = Inr (Inherited nm)"
  by (auto simp add: getProvider_def get_property_def providers_def module_init_def new_def object_prototype_keys_def)

text \<open>
  C6. \<^verbatim>\<open>getProvider\<close> does not raise for every unregistered name: \<^verbatim>\<open>providers[name]\<close>
  also finds the members of \<^verbatim>\<open>Object.prototype\<close>, which are truthy, so for the name
  \<^verbatim>\<open>constructor\<close> the inherited member is returned as if it were a provider.
\<close>

theorem getProvider_constructor: "getProvider ''constructor'' = Inr (Inherited ''constructor'')"
  by (simp add: getProvider_def get_property_def providers_def module_init_def new_def object_prototype_keys_def)

section \<open>The request sent to the hosted API\<close>

text \<open>
  C7. Every call of the remote provider's \<^verbatim>\<open>generateCompletion\<close> transmits exactly one
  request, whose \<^verbatim>\<open>n\<close> is the minimum of the requested count (1 when omitted) and 10,
  so never more than 10 and equal to 10 for a count of 50; whose model is
  \<^verbatim>\<open>gpt-4o-mini\<close> when the model is unset or empty and the given model otherwise; whose
  messages are the given message list, or the single message of role \<^verbatim>\<open>user\<close> wrapping
  a bare string prompt; and whose \<^verbatim>\<open>stream\<close> is true.
\<close>

theorem generateCompletion_request:
  "\<exists>c. calls (snd (OpenAIProvider_generateCompletion api parse pretty p s)) = calls s @ [c]
      \<and> cc_n (call_request c) = min (case number p of None \<Rightarrow> 1 | Some k \<Rightarrow> k) 10
      \<and> cc_n (call_request c) \<le> 10
      \<and> (number p = Some 50 \<longrightarrow> cc_n (call_request c) = 10)
      \<and> (p_model p = None \<or> p_model p = Some [] \<longrightarrow> cc_model (call_request c) = ''gpt-4o-mini'')
      \<and> (\<forall>m. p_model p = Some m \<and> m \<noteq> [] \<longrightarrow> cc_model (call_request c) = m)
      \<and> (\<forall>t. prompt p = Text t \<longrightarrow> cc_messages (call_request c) = [\<lparr>role = ''user'', content = t\<rparr>])
      \<and> (\<forall>ms. prompt p = Messages ms \<longrightarrow> cc_messages (call_request c) = ms)
      \<and> cc_stream (call_request c)"
  by (auto simp: OpenAIProvider_generateCompletion_def do_call_def chat_request_def or_default_def as_messages_def split: prod.splits sum.splits option.splits)

theorem generateCompletion_request_witness:
  "calls (snd (OpenAIProvider_generateCompletion working_api example_parse example_stringify list_files s0))
     = [\<lparr>apiKey = Some ''sk-test'', basePath = Some ''https://api.openai.com/v1'',
         call_request = \<lparr>cc_model = ''gpt-4o-mini'',
                          cc_messages = [\<lparr>role = ''user'', content = ''list files''\<rparr>],
                          cc_n = 10, cc_stream = True\<rparr>\<rparr>]"
  using generateCompletion_request [of working_api example_parse example_stringify list_files s0]
  by (simp add: OpenAIProvider_generateCompletion_def do_call_def chat_request_def or_default_def
        as_messages_def working_api_def list_files_def s0_def)


section \<open>Negotiating the dialect\<close>

lemma cswf_format:
  "createStreamWithFormat fetch stringify endpoint mdl msgs fmt s = (Inr r, s') \<Longrightarrow> lsr_format r = fmt"
  by (auto simp: createStreamWithFormat_def Let_def split: prod.splits sum.splits option.splits if_splits)

lemma cswf_sent:
  "sent (snd (createStreamWithFormat fetch stringify endpoint mdl msgs fmt s))
     = sent s @ [post (chat_url endpoint fmt) (chat_request_body fmt mdl msgs)]
   \<or> fmt = Ollama
     \<and> sent (snd (createStreamWithFormat fetch stringify endpoint mdl msgs fmt s))
         = sent s @ [post (chat_url endpoint fmt) (chat_request_body fmt mdl msgs),
                     post (chat_url endpoint fmt) ((chat_request_body fmt mdl msgs)\<lparr>stream_flag := False\<rparr>)]"
  by (auto simp: createStreamWithFormat_def do_fetch_def Let_def split: prod.splits sum.splits option.splits if_splits)

lemma cswf_urls:
  assumes "createStreamWithFormat fetch stringify endpoint mdl msgs fmt s = (res, s')"
  shows "\<exists>reqs k. sent s' = sent s @ reqs \<and> map url reqs = replicate k (chat_url endpoint fmt)
           \<and> (k = 1 \<or> k = 2 \<and> fmt = Ollama)"
proof -
  from cswf_sent [of fetch stringify endpoint mdl msgs fmt s] assms
  consider "sent s' = sent s @ [post (chat_url endpoint fmt) (chat_request_body fmt mdl msgs)]"
    | "fmt = Ollama" "sent s' = sent s @ [post (chat_url endpoint fmt) (chat_request_body fmt mdl msgs),
                     post (chat_url endpoint fmt) ((chat_request_body fmt mdl msgs)\<lparr>stream_flag := False\<rparr>)]"
    by auto
  then show ?thesis
  proof cases
    case 1
    have "map url [post (chat_url endpoint fmt) (chat_request_body fmt mdl msgs)] = replicate 1 (chat_url endpoint fmt)"
      by (simp add: post_def)
    with 1 show ?thesis by (intro exI [where x = 1] exI [where x = "[post (chat_url endpoint fmt) (chat_request_body fmt mdl msgs)]"]) simp
  next
    case 2
    let ?reqs = "[post (chat_url endpoint fmt) (chat_request_body fmt mdl msgs),
                     post (chat_url endpoint fmt) ((chat_request_body fmt mdl msgs)\<lparr>stream_flag := False\<rparr>)]"
    have "map url ?reqs = replicate 2 (chat_url endpoint fmt)"
      by (simp add: post_def numeral_2_eq_2)
    with 2 show ?thesis by (intro exI [where x = 2] exI [where x = ?reqs]) simp
  qed
qed

lemma createStream_unrolled:
  "createStream fetch stringify endpoint mdl msgs None s =
      (case createStreamWithFormat fetch stringify endpoint mdl msgs Ollama s of
         (Inr r, s1) \<Rightarrow> (Inr r, s1)
       | (Inl e1, s1) \<Rightarrow>
          (case createStreamWithFormat fetch stringify endpoint mdl msgs Lmstudio s1 of
             (Inr r, s2) \<Rightarrow> (Inr r, s2)
           | (Inl e2, s2) \<Rightarrow>
              (case createStreamWithFormat fetch stringify endpoint mdl msgs Openai s2 of
                 (Inr r, s3) \<Rightarrow> (Inr r, s3)
               | (Inl e3, s3) \<Rightarrow> (Inl (exhausted endpoint), s3))))"
  by (simp add: createStream_def formats_def split: prod.splits sum.splits)


lemma cswf_one_url:
  assumes "createStreamWithFormat fetch stringify endpoint mdl msgs fmt s = (res, s')"
    and "fmt \<noteq> Ollama"
  shows "\<exists>reqs. sent s' = sent s @ reqs \<and> map url reqs = [chat_url endpoint fmt]"
  using cswf_urls [OF assms(1)] assms(2) by auto

lemma createStream_trace:
  assumes run: "createStream fetch stringify endpoint mdl msgs None s = (res, s')"
  shows "\<exists>reqs k fs. sent s' = sent s @ reqs
           \<and> map url reqs = replicate k (chat_url endpoint Ollama) @ map (chat_url endpoint) fs
           \<and> (k = 1 \<or> k = 2)
           \<and> (case res of
                 Inr r \<Rightarrow> fs = [] \<and> lsr_format r = Ollama
                          \<or> fs = [Lmstudio] \<and> lsr_format r = Lmstudio
                          \<or> fs = [Lmstudio, Openai] \<and> lsr_format r = Openai
               | Inl e \<Rightarrow> fs = [Lmstudio, Openai] \<and> e = exhausted endpoint)"
proof -
  let ?attempt = "createStreamWithFormat fetch stringify endpoint mdl msgs"
  obtain r1 s1 where a1: "?attempt Ollama s = (r1, s1)" by (cases "?attempt Ollama s")
  obtain r2 s2 where a2: "?attempt Lmstudio s1 = (r2, s2)" by (cases "?attempt Lmstudio s1")
  obtain r3 s3 where a3: "?attempt Openai s2 = (r3, s3)" by (cases "?attempt Openai s2")
  from cswf_urls [OF a1] obtain q1 k
    where t1: "sent s1 = sent s @ q1" "map url q1 = replicate k (chat_url endpoint Ollama)"
      and k: "k = 1 \<or> k = 2"
    by auto
  from cswf_one_url [OF a2] obtain q2
    where t2: "sent s2 = sent s1 @ q2" "map url q2 = [chat_url endpoint Lmstudio]"
    by auto
  from cswf_one_url [OF a3] obtain q3
    where t3: "sent s3 = sent s2 @ q3" "map url q3 = [chat_url endpoint Openai]"
    by auto
  show ?thesis
  proof (cases r1)
    case (Inr r)
    with run a1 have "res = Inr r" "s' = s1" by (simp_all add: createStream_unrolled)
    moreover have "lsr_format r = Ollama" using a1 Inr cswf_format by fastforce
    ultimately show ?thesis using t1 k
      by (intro exI [where x = q1] exI [where x = k] exI [where x = "[]"]) simp
  next
    case e1: (Inl e1)
    show ?thesis
    proof (cases r2)
      case (Inr r)
      with run a1 a2 e1 have "res = Inr r" "s' = s2" by (simp_all add: createStream_unrolled)
      moreover have "lsr_format r = Lmstudio" using a2 Inr cswf_format by fastforce
      ultimately show ?thesis using t1 t2 k
        by (intro exI [where x = "q1 @ q2"] exI [where x = k] exI [where x = "[Lmstudio]"]) simp
    next
      case e2: (Inl e2)
      show ?thesis
      proof (cases r3)
        case (Inr r)
        with run a1 a2 a3 e1 e2 have "res = Inr r" "s' = s3" by (simp_all add: createStream_unrolled)
        moreover have "lsr_format r = Openai" using a3 Inr cswf_format by fastforce
        ultimately show ?thesis using t1 t2 t3 k
          by (intro exI [where x = "q1 @ q2 @ q3"] exI [where x = k] exI [where x = "[Lmstudio, Openai]"]) simp
      next
        case (Inl e3)
        with run a1 a2 a3 e1 e2 have "res = Inl (exhausted endpoint)" "s' = s3"
          by (simp_all add: createStream_unrolled)
        then show ?thesis using t1 t2 t3 k
          by (intro exI [where x = "q1 @ q2 @ q3"] exI [where x = k] exI [where x = "[Lmstudio, Openai]"]) simp
      qed
    qed
  qed
qed


lemma cswf_pinned_urls:
  assumes "createStream fetch stringify endpoint mdl msgs (Some fmt) s = (res, s')"
  shows "\<exists>reqs k. sent s' = sent s @ reqs \<and> map url reqs = replicate k (chat_url endpoint fmt)
           \<and> (k = 1 \<or> k = 2 \<and> fmt = Ollama)"
  using assms by (intro cswf_urls [where res = res]) (simp add: createStream_def)

lemma lmstudio_run:
  "createStream lmstudio_server example_stringify ''http://localhost:1234'' (Some ''phi'') [] None s0
     = (Inr \<lparr>lsr_stream = [''data: {}'', ''data: [DONE]''], lsr_format = Lmstudio\<rparr>,
        \<lparr>world = 3,
         sent = [post ''http://localhost:1234/api/chat'' (chat_request_body Ollama (Some ''phi'') []),
                 post ''http://localhost:1234/api/chat''
                   ((chat_request_body Ollama (Some ''phi'') [])\<lparr>stream_flag := False\<rparr>),
                 post ''http://localhost:1234/v1/chat/completions''
                   (chat_request_body Lmstudio (Some ''phi'') [])],
         calls = []\<rparr>)"
  by (simp add: createStream_def formats_def createStreamWithFormat_def do_fetch_def Let_def
        chat_url_def accept_stream_def is_stream_type_def or_default_def
        lmstudio_server_def lmstudio_reply_def not_found_def post_def s0_def)

lemma lmstudio_pinned_run:
  "createStream lmstudio_server example_stringify ''http://localhost:1234'' (Some ''phi'') []
       (Some Lmstudio) s0
     = (Inr \<lparr>lsr_stream = [''data: {}'', ''data: [DONE]''], lsr_format = Lmstudio\<rparr>,
        \<lparr>world = 1,
         sent = [post ''http://localhost:1234/v1/chat/completions''
                   (chat_request_body Lmstudio (Some ''phi'') [])],
         calls = []\<rparr>)"
  by (simp add: createStream_def formats_def createStreamWithFormat_def do_fetch_def Let_def
        chat_url_def accept_stream_def is_stream_type_def or_default_def
        lmstudio_server_def lmstudio_reply_def not_found_def post_def s0_def)

text \<open>
  C2. With no pinned format, \<^verbatim>\<open>createStream\<close> attempts the dialects one after the other
  in the order ollama, lmstudio, openai: it is the first attempt that succeeds, run in the
  state the failed attempts before it left, and a failed attempt is followed by the next
  dialect. A stream returned by the attempt of a dialect is tagged with that dialect. The
  requests issued are one or two to the ollama chat URL, followed by those to the dialects
  attempted after it, and the tag of the result is the last dialect attempted. With a
  pinned format the call is that dialect's attempt alone, and every request goes to that
  dialect's URL.
\<close>

theorem createStream_order:
  "createStream fetch stringify endpoint mdl msgs None s =
      (case createStreamWithFormat fetch stringify endpoint mdl msgs Ollama s of
         (Inr r, s1) \<Rightarrow> (Inr r, s1)
       | (Inl e1, s1) \<Rightarrow>
          (case createStreamWithFormat fetch stringify endpoint mdl msgs Lmstudio s1 of
             (Inr r, s2) \<Rightarrow> (Inr r, s2)
           | (Inl e2, s2) \<Rightarrow>
              (case createStreamWithFormat fetch stringify endpoint mdl msgs Openai s2 of
                 (Inr r, s3) \<Rightarrow> (Inr r, s3)
               | (Inl e3, s3) \<Rightarrow> (Inl (exhausted endpoint), s3))))
   \<and> (\<forall>fmt t r t'. createStreamWithFormat fetch stringify endpoint mdl msgs fmt t = (Inr r, t')
          \<longrightarrow> lsr_format r = fmt)
   \<and> (\<forall>res s'. createStream fetch stringify endpoint mdl msgs None s = (res, s')
          \<longrightarrow> (\<exists>reqs k fs. sent s' = sent s @ reqs
                 \<and> map url reqs = replicate k (chat_url endpoint Ollama) @ map (chat_url endpoint) fs
                 \<and> (k = 1 \<or> k = 2)
                 \<and> (case res of
                       Inr r \<Rightarrow> fs = [] \<and> lsr_format r = Ollama
                                \<or> fs = [Lmstudio] \<and> lsr_format r = Lmstudio
                                \<or> fs = [Lmstudio, Openai] \<and> lsr_format r = Openai
                     | Inl e \<Rightarrow> fs = [Lmstudio, Openai] \<and> e = exhausted endpoint)))
   \<and> (\<forall>fmt. createStream fetch stringify endpoint mdl msgs (Some fmt) s
               = createStreamWithFormat fetch stringify endpoint mdl msgs fmt s)
   \<and> (\<forall>fmt res s'. createStream fetch stringify endpoint mdl msgs (Some fmt) s = (res, s')
          \<longrightarrow> (\<exists>reqs k. sent s' = sent s @ reqs
                 \<and> map url reqs = replicate k (chat_url endpoint fmt)
                 \<and> (k = 1 \<or> k = 2 \<and> fmt = Ollama)))"
proof (intro conjI allI impI)
  show "createStream fetch stringify endpoint mdl msgs None s =
      (case createStreamWithFormat fetch stringify endpoint mdl msgs Ollama s of
         (Inr r, s1) \<Rightarrow> (Inr r, s1)
       | (Inl e1, s1) \<Rightarrow>
          (case createStreamWithFormat fetch stringify endpoint mdl msgs Lmstudio s1 of
             (Inr r, s2) \<Rightarrow> (Inr r, s2)
           | (Inl e2, s2) \<Rightarrow>
              (case createStreamWithFormat fetch stringify endpoint mdl msgs Openai s2 of
                 (Inr r, s3) \<Rightarrow> (Inr r, s3)
               | (Inl e3, s3) \<Rightarrow> (Inl (exhausted endpoint), s3))))"
    by (rule createStream_unrolled)
next
  fix fmt t r t'
  assume "createStreamWithFormat fetch stringify endpoint mdl msgs fmt t = (Inr r, t')"
  then show "lsr_format r = fmt" by (rule cswf_format)
next
  fix res s'
  assume "createStream fetch stringify endpoint mdl msgs None s = (res, s')"
  then show "\<exists>reqs k fs. sent s' = sent s @ reqs
                 \<and> map url reqs = replicate k (chat_url endpoint Ollama) @ map (chat_url endpoint) fs
                 \<and> (k = 1 \<or> k = 2)
                 \<and> (case res of
                       Inr r \<Rightarrow> fs = [] \<and> lsr_format r = Ollama
                                \<or> fs = [Lmstudio] \<and> lsr_format r = Lmstudio
                                \<or> fs = [Lmstudio, Openai] \<and> lsr_format r = Openai
                     | Inl e \<Rightarrow> fs = [Lmstudio, Openai] \<and> e = exhausted endpoint)"
    by (rule createStream_trace)
next
  fix fmt
  show "createStream fetch stringify endpoint mdl msgs (Some fmt) s
               = createStreamWithFormat fetch stringify endpoint mdl msgs fmt s"
    by (simp add: createStream_def)
next
  fix fmt res s'
  assume "createStream fetch stringify endpoint mdl msgs (Some fmt) s = (res, s')"
  then show "\<exists>reqs k. sent s' = sent s @ reqs
                 \<and> map url reqs = replicate k (chat_url endpoint fmt)
                 \<and> (k = 1 \<or> k = 2 \<and> fmt = Ollama)"
    by (rule cswf_pinned_urls)
qed

theorem createStream_order_witness:
  "createStream lmstudio_server example_stringify ''http://localhost:1234'' (Some ''phi'') [] None s0
     = (Inr \<lparr>lsr_stream = [''data: {}'', ''data: [DONE]''], lsr_format = Lmstudio\<rparr>,
        \<lparr>world = 3,
         sent = [post ''http://localhost:1234/api/chat'' (chat_request_body Ollama (Some ''phi'') []),
                 post ''http://localhost:1234/api/chat''
                   ((chat_request_body Ollama (Some ''phi'') [])\<lparr>stream_flag := False\<rparr>),
                 post ''http://localhost:1234/v1/chat/completions''
                   (chat_request_body Lmstudio (Some ''phi'') [])],
         calls = []\<rparr>)
   \<and> (\<exists>reqs k fs.
         [post ''http://localhost:1234/api/chat'' (chat_request_body Ollama (Some ''phi'') []),
          post ''http://localhost:1234/api/chat''
            ((chat_request_body Ollama (Some ''phi'') [])\<lparr>stream_flag := False\<rparr>),
          post ''http://localhost:1234/v1/chat/completions''
            (chat_request_body Lmstudio (Some ''phi'') [])] = reqs
         \<and> map url reqs = replicate k (chat_url ''http://localhost:1234'' Ollama)
                            @ map (chat_url ''http://localhost:1234'') fs
         \<and> (k = 1 \<or> k = 2) \<and> fs = [Lmstudio])
   \<and> createStream lmstudio_server example_stringify ''http://localhost:1234'' (Some ''phi'') []
         (Some Lmstudio) s0
     = (Inr \<lparr>lsr_stream = [''data: {}'', ''data: [DONE]''], lsr_format = Lmstudio\<rparr>,
        \<lparr>world = 1,
         sent = [post ''http://localhost:1234/v1/chat/completions''
                   (chat_request_body Lmstudio (Some ''phi'') [])],
         calls = []\<rparr>)
   \<and> (\<exists>reqs k.
         [post ''http://localhost:1234/v1/chat/completions''
            (chat_request_body Lmstudio (Some ''phi'') [])] = reqs
         \<and> map url reqs = replicate k (chat_url ''http://localhost:1234'' Lmstudio) \<and> k = 1)"
proof (intro conjI)
  note inst = createStream_order [of lmstudio_server example_stringify "''http://localhost:1234''"
                "Some ''phi''" "[]" s0]
  show "\<exists>reqs k fs.
         [post ''http://localhost:1234/api/chat'' (chat_request_body Ollama (Some ''phi'') []),
          post ''http://localhost:1234/api/chat''
            ((chat_request_body Ollama (Some ''phi'') [])\<lparr>stream_flag := False\<rparr>),
          post ''http://localhost:1234/v1/chat/completions''
            (chat_request_body Lmstudio (Some ''phi'') [])] = reqs
         \<and> map url reqs = replicate k (chat_url ''http://localhost:1234'' Ollama)
                            @ map (chat_url ''http://localhost:1234'') fs
         \<and> (k = 1 \<or> k = 2) \<and> fs = [Lmstudio]"
    using inst [THEN conjunct2, THEN conjunct2, THEN conjunct1, rule_format, OF lmstudio_run]
    by (auto simp: s0_def)
  show "\<exists>reqs k.
         [post ''http://localhost:1234/v1/chat/completions''
            (chat_request_body Lmstudio (Some ''phi'') [])] = reqs
         \<and> map url reqs = replicate k (chat_url ''http://localhost:1234'' Lmstudio) \<and> k = 1"
    using inst [THEN conjunct2, THEN conjunct2, THEN conjunct2, THEN conjunct2, rule_format,
               OF lmstudio_pinned_run]
    by (auto simp: s0_def)
qed (rule lmstudio_run lmstudio_pinned_run)+


section \<open>When every attempt fails\<close>

lemma exhausted_message:
  "str_includes (message (exhausted endpoint)) endpoint
   \<and> str_includes (message (exhausted endpoint)) ''Ollama''
   \<and> str_includes (message (exhausted endpoint)) ''LM Studio''
   \<and> str_includes (message (exhausted endpoint)) ''OpenAI-compatible''"
proof -
  have 1: "str_includes (message (exhausted endpoint)) endpoint"
    by (simp only: exhausted_def message.simps str_includes_mid)
  have t: "str_includes ''. Supported formats: Ollama, LM Studio, OpenAI-compatible'' ''Ollama''"
       "str_includes ''. Supported formats: Ollama, LM Studio, OpenAI-compatible'' ''LM Studio''"
       "str_includes ''. Supported formats: Ollama, LM Studio, OpenAI-compatible'' ''OpenAI-compatible''"
    by simp_all
  have 2: "str_includes (message (exhausted endpoint)) w"
    if "str_includes ''. Supported formats: Ollama, LM Studio, OpenAI-compatible'' w" for w
    using that by (simp only: exhausted_def message.simps str_includes_append_left)
  show ?thesis using 1 2 [OF t(1)] 2 [OF t(2)] 2 [OF t(3)] by simp
qed

lemma createStream_all_fail:
  assumes "createStreamWithFormat fetch stringify endpoint mdl msgs Ollama s = (Inl e1, s1)"
    and "createStreamWithFormat fetch stringify endpoint mdl msgs Lmstudio s1 = (Inl e2, s2)"
    and "createStreamWithFormat fetch stringify endpoint mdl msgs Openai s2 = (Inl e3, s3)"
  shows "createStream fetch stringify endpoint mdl msgs None s = (Inl (exhausted endpoint), s3)"
  using assms by (simp add: createStream_unrolled)

lemma createStream_failure_is_exhausted:
  assumes "createStream fetch stringify endpoint mdl msgs None s = (Inl e, s')"
  shows "e = exhausted endpoint"
  using createStream_trace [OF assms] by auto

lemma always_404_pinned_run:
  "createStream always_404 example_stringify ''http://localhost:11434'' (Some ''phi'') []
       (Some Lmstudio) s0
     = (Inl (Error ''lmstudio request failed: Not Found''),
        \<lparr>world = 1,
         sent = [post ''http://localhost:11434/v1/chat/completions''
                   (chat_request_body Lmstudio (Some ''phi'') [])],
         calls = []\<rparr>)"
  by (simp add: createStream_def createStreamWithFormat_def do_fetch_def Let_def
        chat_url_def accept_stream_def always_404_def not_found_def post_def s0_def)

lemma always_404_run:
  "createStream always_404 example_stringify ''http://localhost:11434'' (Some ''phi'') [] None s0
     = (Inl (exhausted ''http://localhost:11434''),
        \<lparr>world = 4,
         sent = [post ''http://localhost:11434/api/chat'' (chat_request_body Ollama (Some ''phi'') []),
                 post ''http://localhost:11434/api/chat''
                   ((chat_request_body Ollama (Some ''phi'') [])\<lparr>stream_flag := False\<rparr>),
                 post ''http://localhost:11434/v1/chat/completions''
                   (chat_request_body Lmstudio (Some ''phi'') []),
                 post ''http://localhost:11434/chat/completions''
                   (chat_request_body Openai (Some ''phi'') [])],
         calls = []\<rparr>)"
  by (simp add: createStream_def formats_def createStreamWithFormat_def do_fetch_def Let_def
        chat_url_def accept_stream_def always_404_def not_found_def post_def s0_def)

lemma always_404_attempts:
  "createStreamWithFormat always_404 example_stringify ''http://localhost:11434'' (Some ''phi'') []
       Lmstudio s0
     = (Inl (Error ''lmstudio request failed: Not Found''),
        \<lparr>world = 1,
         sent = [post ''http://localhost:11434/v1/chat/completions''
                   (chat_request_body Lmstudio (Some ''phi'') [])],
         calls = []\<rparr>)"
  using always_404_pinned_run by (simp add: createStream_def)

text \<open>
  C3, as stated, fails for a pinned dialect: the failure of the one attempt reaches the
  caller as it is. Against a server that answers 404, the pinned lmstudio call fails with
  the dialect's own error, which is not the aggregated error and does not name the
  endpoint.
\<close>

theorem createStream_pinned_counterexample:
  "createStream always_404 example_stringify ''http://localhost:11434'' (Some ''phi'') []
       (Some Lmstudio) s0
     = (Inl (Error ''lmstudio request failed: Not Found''),
        \<lparr>world = 1,
         sent = [post ''http://localhost:11434/v1/chat/completions''
                   (chat_request_body Lmstudio (Some ''phi'') [])],
         calls = []\<rparr>)
   \<and> Error ''lmstudio request failed: Not Found'' \<noteq> exhausted ''http://localhost:11434''
   \<and> \<not> str_includes (message (Error ''lmstudio request failed: Not Found'')) ''http://localhost:11434''"
  by (simp add: always_404_pinned_run exhausted_def)

text \<open>
  C3, amended. When no dialect is pinned, every failure of \<^verbatim>\<open>createStream\<close> is the single
  aggregated error, whose message names the endpoint and lists Ollama, LM Studio and
  OpenAI-compatible; it is raised whenever the three attempts fail one after the other,
  and none of their errors reaches the caller. When a dialect is pinned, the failure of
  its attempt is the failure of \<^verbatim>\<open>createStream\<close>, unchanged.
\<close>

theorem createStream_exhausted:
  "(\<forall>e s'. createStream fetch stringify endpoint mdl msgs None s = (Inl e, s')
       \<longrightarrow> e = exhausted endpoint
           \<and> str_includes (message e) endpoint
           \<and> str_includes (message e) ''Ollama''
           \<and> str_includes (message e) ''LM Studio''
           \<and> str_includes (message e) ''OpenAI-compatible'')
   \<and> (\<forall>e1 s1 e2 s2 e3 s3.
         createStreamWithFormat fetch stringify endpoint mdl msgs Ollama s = (Inl e1, s1)
         \<and> createStreamWithFormat fetch stringify endpoint mdl msgs Lmstudio s1 = (Inl e2, s2)
         \<and> createStreamWithFormat fetch stringify endpoint mdl msgs Openai s2 = (Inl e3, s3)
       \<longrightarrow> createStream fetch stringify endpoint mdl msgs None s = (Inl (exhausted endpoint), s3))
   \<and> (\<forall>fmt e s'.
         createStreamWithFormat fetch stringify endpoint mdl msgs fmt s = (Inl e, s')
       \<longrightarrow> createStream fetch stringify endpoint mdl msgs (Some fmt) s = (Inl e, s'))"
proof (intro conjI allI impI)
  fix e s'
  assume run: "createStream fetch stringify endpoint mdl msgs None s = (Inl e, s')"
  have e: "e = exhausted endpoint" by (rule createStream_failure_is_exhausted [OF run])
  show "e = exhausted endpoint" by (rule e)
  show "str_includes (message e) endpoint" "str_includes (message e) ''Ollama''"
    "str_includes (message e) ''LM Studio''" "str_includes (message e) ''OpenAI-compatible''"
    using exhausted_message [of endpoint] by (simp_all only: e)
next
  fix e1 s1 e2 s2 e3 s3
  assume h: "createStreamWithFormat fetch stringify endpoint mdl msgs Ollama s = (Inl e1, s1)
         \<and> createStreamWithFormat fetch stringify endpoint mdl msgs Lmstudio s1 = (Inl e2, s2)
         \<and> createStreamWithFormat fetch stringify endpoint mdl msgs Openai s2 = (Inl e3, s3)"
  show "createStream fetch stringify endpoint mdl msgs None s = (Inl (exhausted endpoint), s3)"
    using h by (simp add: createStream_unrolled)
next
  fix fmt e s'
  assume "createStreamWithFormat fetch stringify endpoint mdl msgs fmt s = (Inl e, s')"
  then show "createStream fetch stringify endpoint mdl msgs (Some fmt) s = (Inl e, s')"
    by (simp add: createStream_def)
qed

theorem createStream_exhausted_witness:
  "createStream always_404 example_stringify ''http://localhost:11434'' (Some ''phi'') [] None s0
     = (Inl (exhausted ''http://localhost:11434''),
        \<lparr>world = 4,
         sent = [post ''http://localhost:11434/api/chat'' (chat_request_body Ollama (Some ''phi'') []),
                 post ''http://localhost:11434/api/chat''
                   ((chat_request_body Ollama (Some ''phi'') [])\<lparr>stream_flag := False\<rparr>),
                 post ''http://localhost:11434/v1/chat/completions''
                   (chat_request_body Lmstudio (Some ''phi'') []),
                 post ''http://localhost:11434/chat/completions''
                   (chat_request_body Openai (Some ''phi'') [])],
         calls = []\<rparr>)
   \<and> str_includes (message (exhausted ''http://localhost:11434'')) ''http://localhost:11434''
   \<and> str_includes (message (exhausted ''http://localhost:11434'')) ''Ollama''
   \<and> str_includes (message (exhausted ''http://localhost:11434'')) ''LM Studio''
   \<and> str_includes (message (exhausted ''http://localhost:11434'')) ''OpenAI-compatible''
   \<and> createStreamWithFormat always_404 example_stringify ''http://localhost:11434'' (Some ''phi'') []
         Lmstudio s0
     = (Inl (Error ''lmstudio request failed: Not Found''),
        \<lparr>world = 1,
         sent = [post ''http://localhost:11434/v1/chat/completions''
                   (chat_request_body Lmstudio (Some ''phi'') [])],
         calls = []\<rparr>)
   \<and> createStream always_404 example_stringify ''http://localhost:11434'' (Some ''phi'') []
         (Some Lmstudio) s0
     = (Inl (Error ''lmstudio request failed: Not Found''),
        \<lparr>world = 1,
         sent = [post ''http://localhost:11434/v1/chat/completions''
                   (chat_request_body Lmstudio (Some ''phi'') [])],
         calls = []\<rparr>)"
  using createStream_exhausted [of always_404 example_stringify "''http://localhost:11434''"
          "Some ''phi''" "[]" s0, THEN conjunct1, rule_format, OF always_404_run]
    createStream_exhausted [of always_404 example_stringify "''http://localhost:11434''"
          "Some ''phi''" "[]" s0, THEN conjunct2, THEN conjunct2, rule_format,
          OF always_404_attempts]
    always_404_run always_404_attempts
  by simp

section \<open>The attempt of one dialect\<close>

lemma cswf_accept:
  assumes "fetch (world s) (post (chat_url endpoint fmt) (chat_request_body fmt mdl msgs)) = (Inr r, w1)"
    and "accept_stream fmt r = Some strm"
  shows "createStreamWithFormat fetch stringify endpoint mdl msgs fmt s
           = (Inr \<lparr>lsr_stream = strm, lsr_format = fmt\<rparr>,
              s\<lparr>world := w1,
                sent := sent s @ [post (chat_url endpoint fmt) (chat_request_body fmt mdl msgs)]\<rparr>)"
  using assms by (simp add: createStreamWithFormat_def do_fetch_def Let_def)

lemma accept_other:
  "fmt \<noteq> Ollama \<Longrightarrow> ok r \<Longrightarrow> resp_body r = Some strm \<Longrightarrow> accept_stream fmt r = Some strm"
  by (simp add: accept_stream_def)

lemma accept_ollama:
  "ok r \<Longrightarrow> resp_body r = Some strm
     \<Longrightarrow> accept_stream Ollama r = (if is_stream_type r then Some strm else None)"
  by (simp add: accept_stream_def)

lemma cswf_ollama_retry:
  assumes "fetch (world s) (post (chat_url endpoint Ollama) (chat_request_body Ollama mdl msgs)) = (Inr r, w1)"
    and "accept_stream Ollama r = None"
    and "fetch w1 (post (chat_url endpoint Ollama)
                    ((chat_request_body Ollama mdl msgs)\<lparr>stream_flag := False\<rparr>)) = (out, w2)"
  shows "createStreamWithFormat fetch stringify endpoint mdl msgs Ollama s
           = (case out of
                Inl err \<Rightarrow> Inl err
              | Inr r2 \<Rightarrow>
                  if ok r2 then
                    (case json_body r2 of
                       Inl err \<Rightarrow> Inl err
                     | Inr j \<Rightarrow> Inr \<lparr>lsr_stream = [''data: '' @ stringify j @ nl], lsr_format = Ollama\<rparr>)
                  else Inl (Error (''ollama request failed (non-stream): '' @ statusText r2)),
              s\<lparr>world := w2,
                sent := sent s @ [post (chat_url endpoint Ollama) (chat_request_body Ollama mdl msgs),
                                  post (chat_url endpoint Ollama)
                                    ((chat_request_body Ollama mdl msgs)\<lparr>stream_flag := False\<rparr>)]\<rparr>)"
  using assms
  by (simp add: createStreamWithFormat_def do_fetch_def Let_def fakeStream_def split: sum.splits)

text \<open>
  C4. For the ollama dialect, when the streaming request is answered successfully with a
  body whose content type includes neither \<^verbatim>\<open>application/x-ndjson\<close> nor
  \<^verbatim>\<open>text/event-stream\<close>, the same request is issued again with \<^verbatim>\<open>stream\<close> set to false
  (same URL, method and headers, the body otherwise unchanged), and when that one succeeds
  the result is tagged ollama and its stream is the single chunk \<^verbatim>\<open>data: \<close>, the JSON
  encoding of the response body, and a newline. For the other dialects a successful
  response with a body is returned as the stream at once, whatever its content type, after
  that one request. The first request of every dialect asks for streaming: the ollama
  request is the POST to \<^verbatim>\<open>/api/chat\<close> whose body has \<^verbatim>\<open>stream\<close> true, and the request
  issued again is that request with \<^verbatim>\<open>stream\<close> false and nothing else changed.
\<close>

theorem ollama_fallback:
  "(\<forall>r w1 strm out w2.
       fetch (world s) (post (chat_url endpoint Ollama) (chat_request_body Ollama mdl msgs)) = (Inr r, w1)
       \<and> ok r \<and> resp_body r = Some strm
       \<and> \<not> str_includes (or_default (content_type r) []) ''application/x-ndjson''
       \<and> \<not> str_includes (or_default (content_type r) []) ''text/event-stream''
       \<and> fetch w1 (post (chat_url endpoint Ollama)
                      ((chat_request_body Ollama mdl msgs)\<lparr>stream_flag := False\<rparr>)) = (out, w2)
     \<longrightarrow> sent (snd (createStreamWithFormat fetch stringify endpoint mdl msgs Ollama s))
           = sent s @ [post (chat_url endpoint Ollama) (chat_request_body Ollama mdl msgs),
                       post (chat_url endpoint Ollama)
                         ((chat_request_body Ollama mdl msgs)\<lparr>stream_flag := False\<rparr>)]
         \<and> (\<forall>r2 j. out = Inr r2 \<and> ok r2 \<and> json_body r2 = Inr j
              \<longrightarrow> fst (createStreamWithFormat fetch stringify endpoint mdl msgs Ollama s)
                    = Inr \<lparr>lsr_stream = [''data: '' @ stringify j @ nl], lsr_format = Ollama\<rparr>))
   \<and> (\<forall>fmt r w1 strm.
       fmt \<noteq> Ollama
       \<and> fetch (world s) (post (chat_url endpoint fmt) (chat_request_body fmt mdl msgs)) = (Inr r, w1)
       \<and> ok r \<and> resp_body r = Some strm
     \<longrightarrow> createStreamWithFormat fetch stringify endpoint mdl msgs fmt s
           = (Inr \<lparr>lsr_stream = strm, lsr_format = fmt\<rparr>,
              s\<lparr>world := w1,
                sent := sent s @ [post (chat_url endpoint fmt) (chat_request_body fmt mdl msgs)]\<rparr>))
   \<and> post (chat_url endpoint Ollama) (chat_request_body Ollama mdl msgs)
       = \<lparr>url = endpoint @ ''/api/chat'', http_method = ''POST'',
          headers = [(''Content-Type'', ''application/json'')],
          body = Some \<lparr>model = mdl, messages = msgs, stream_flag = True,
                        options = Some \<lparr>opt_temperature = 7 / 10, top_p = 9 / 10\<rparr>,
                        temperature = None\<rparr>\<rparr>
   \<and> post (chat_url endpoint Ollama) ((chat_request_body Ollama mdl msgs)\<lparr>stream_flag := False\<rparr>)
       = \<lparr>url = endpoint @ ''/api/chat'', http_method = ''POST'',
          headers = [(''Content-Type'', ''application/json'')],
          body = Some \<lparr>model = mdl, messages = msgs, stream_flag = False,
                        options = Some \<lparr>opt_temperature = 7 / 10, top_p = 9 / 10\<rparr>,
                        temperature = None\<rparr>\<rparr>
   \<and> post (chat_url endpoint Lmstudio) (chat_request_body Lmstudio mdl msgs)
       = \<lparr>url = endpoint @ ''/v1/chat/completions'', http_method = ''POST'',
          headers = [(''Content-Type'', ''application/json'')],
          body = Some \<lparr>model = mdl, messages = msgs, stream_flag = True,
                        options = None, temperature = Some (7 / 10)\<rparr>\<rparr>
   \<and> post (chat_url endpoint Openai) (chat_request_body Openai mdl msgs)
       = \<lparr>url = endpoint @ ''/chat/completions'', http_method = ''POST'',
          headers = [(''Content-Type'', ''application/json'')],
          body = Some \<lparr>model = mdl, messages = msgs, stream_flag = True,
                        options = None, temperature = None\<rparr>\<rparr>
   \<and> (\<forall>fmt. stream_flag (chat_request_body fmt mdl msgs))"
proof (intro conjI allI impI)
  fix r w1 strm out w2
  assume h: "fetch (world s) (post (chat_url endpoint Ollama) (chat_request_body Ollama mdl msgs)) = (Inr r, w1)
       \<and> ok r \<and> resp_body r = Some strm
       \<and> \<not> str_includes (or_default (content_type r) []) ''application/x-ndjson''
       \<and> \<not> str_includes (or_default (content_type r) []) ''text/event-stream''
       \<and> fetch w1 (post (chat_url endpoint Ollama)
                      ((chat_request_body Ollama mdl msgs)\<lparr>stream_flag := False\<rparr>)) = (out, w2)"
  then have rej: "accept_stream Ollama r = None"
    by (simp add: accept_ollama is_stream_type_def)
  note run = cswf_ollama_retry [where fetch = fetch and stringify = stringify and out = out
               and r = r and ?w1.0 = w1 and ?w2.0 = w2, OF _ rej]
  show "sent (snd (createStreamWithFormat fetch stringify endpoint mdl msgs Ollama s))
           = sent s @ [post (chat_url endpoint Ollama) (chat_request_body Ollama mdl msgs),
                       post (chat_url endpoint Ollama)
                         ((chat_request_body Ollama mdl msgs)\<lparr>stream_flag := False\<rparr>)]"
    using h by (subst run) simp_all
  fix r2 j
  assume "out = Inr r2 \<and> ok r2 \<and> json_body r2 = Inr j"
  then show "fst (createStreamWithFormat fetch stringify endpoint mdl msgs Ollama s)
                    = Inr \<lparr>lsr_stream = [''data: '' @ stringify j @ nl], lsr_format = Ollama\<rparr>"
    using h by (subst run) simp_all
next
  fix fmt r w1 strm
  assume h: "fmt \<noteq> Ollama
       \<and> fetch (world s) (post (chat_url endpoint fmt) (chat_request_body fmt mdl msgs)) = (Inr r, w1)
       \<and> ok r \<and> resp_body r = Some strm"
  then have "accept_stream fmt r = Some strm" by (simp add: accept_other)
  with h show "createStreamWithFormat fetch stringify endpoint mdl msgs fmt s
           = (Inr \<lparr>lsr_stream = strm, lsr_format = fmt\<rparr>,
              s\<lparr>world := w1,
                sent := sent s @ [post (chat_url endpoint fmt) (chat_request_body fmt mdl msgs)]\<rparr>)"
    by (intro cswf_accept [where r = r]) simp_all
next
  fix fmt
  show "stream_flag (chat_request_body fmt mdl msgs)"
    by (cases fmt) (simp_all add: chat_request_body_def)
qed (simp_all add: post_def chat_url_def chat_request_body_def)

theorem ollama_fallback_witness:
  "fst (createStreamWithFormat ollama_plain_server example_stringify ''http://localhost:11434''
          (Some ''phi'') [] Ollama s0)
     = Inr \<lparr>lsr_stream = [''data: {}'' @ nl], lsr_format = Ollama\<rparr>
   \<and> sent (snd (createStreamWithFormat ollama_plain_server example_stringify ''http://localhost:11434''
          (Some ''phi'') [] Ollama s0))
     = [\<lparr>url = ''http://localhost:11434/api/chat'', http_method = ''POST'',
         headers = [(''Content-Type'', ''application/json'')],
         body = Some \<lparr>model = Some ''phi'', messages = [], stream_flag = True,
                       options = Some \<lparr>opt_temperature = 7 / 10, top_p = 9 / 10\<rparr>,
                       temperature = None\<rparr>\<rparr>,
        \<lparr>url = ''http://localhost:11434/api/chat'', http_method = ''POST'',
         headers = [(''Content-Type'', ''application/json'')],
         body = Some \<lparr>model = Some ''phi'', messages = [], stream_flag = False,
                       options = Some \<lparr>opt_temperature = 7 / 10, top_p = 9 / 10\<rparr>,
                       temperature = None\<rparr>\<rparr>]
   \<and> createStreamWithFormat lmstudio_server example_stringify ''http://localhost:1234''
          (Some ''phi'') [] Lmstudio s0
     = (Inr \<lparr>lsr_stream = [''data: {}'', ''data: [DONE]''], lsr_format = Lmstudio\<rparr>,
        \<lparr>world = 1,
         sent = [\<lparr>url = ''http://localhost:1234/v1/chat/completions'', http_method = ''POST'',
                  headers = [(''Content-Type'', ''application/json'')],
                  body = Some \<lparr>model = Some ''phi'', messages = [], stream_flag = True,
                                options = None, temperature = Some (7 / 10)\<rparr>\<rparr>],
         calls = []\<rparr>)"
proof -
  let ?u = "chat_url ''http://localhost:11434'' Ollama"
  let ?b = "chat_request_body Ollama (Some ''phi'') []"
  have first: "ollama_plain_server (world s0) (post ?u ?b) = (Inr ollama_plain_reply, 1)"
    by (simp add: ollama_plain_server_def post_def chat_url_def s0_def)
  have second: "ollama_plain_server 1 (post ?u (?b\<lparr>stream_flag := False\<rparr>)) = (Inr ollama_plain_reply, 2)"
    by (simp add: ollama_plain_server_def post_def chat_url_def)
  have reply: "ok ollama_plain_reply \<and> resp_body ollama_plain_reply = Some [''{}'']
       \<and> \<not> str_includes (or_default (content_type ollama_plain_reply) []) ''application/x-ndjson''
       \<and> \<not> str_includes (or_default (content_type ollama_plain_reply) []) ''text/event-stream''
       \<and> json_body ollama_plain_reply = Inr (JObj [])"
    by (simp add: ollama_plain_reply_def or_default_def)
  note a = ollama_fallback [of ollama_plain_server s0 "''http://localhost:11434''" "Some ''phi''" "[]"
             example_stringify, THEN conjunct1, rule_format,
             of ollama_plain_reply 1 "[''{}'']" "Inr ollama_plain_reply" 2]
  have hyp: "ollama_plain_server (world s0) (post ?u ?b) = (Inr ollama_plain_reply, 1)
       \<and> ok ollama_plain_reply \<and> resp_body ollama_plain_reply = Some [''{}'']
       \<and> \<not> str_includes (or_default (content_type ollama_plain_reply) []) ''application/x-ndjson''
       \<and> \<not> str_includes (or_default (content_type ollama_plain_reply) []) ''text/event-stream''
       \<and> ollama_plain_server 1 (post ?u (?b\<lparr>stream_flag := False\<rparr>)) = (Inr ollama_plain_reply, 2)"
    using first second reply by simp
  have 1: "sent (snd (createStreamWithFormat ollama_plain_server example_stringify ''http://localhost:11434''
          (Some ''phi'') [] Ollama s0))
     = sent s0 @ [post ?u ?b, post ?u (?b\<lparr>stream_flag := False\<rparr>)]"
    using a [OF hyp] by simp
  have 2: "fst (createStreamWithFormat ollama_plain_server example_stringify ''http://localhost:11434''
          (Some ''phi'') [] Ollama s0)
     = Inr \<lparr>lsr_stream = [''data: '' @ example_stringify (JObj []) @ nl], lsr_format = Ollama\<rparr>"
    using a [OF hyp, THEN conjunct2, rule_format, of ollama_plain_reply "JObj []"] reply by simp
  let ?v = "chat_url ''http://localhost:1234'' Lmstudio"
  let ?c = "chat_request_body Lmstudio (Some ''phi'') []"
  have hyp3: "Lmstudio \<noteq> Ollama
       \<and> lmstudio_server (world s0) (post ?v ?c) = (Inr lmstudio_reply, 1)
       \<and> ok lmstudio_reply \<and> resp_body lmstudio_reply = Some [''data: {}'', ''data: [DONE]'']"
    by (simp add: lmstudio_server_def lmstudio_reply_def post_def chat_url_def s0_def)
  have 3: "createStreamWithFormat lmstudio_server example_stringify ''http://localhost:1234''
          (Some ''phi'') [] Lmstudio s0
     = (Inr \<lparr>lsr_stream = [''data: {}'', ''data: [DONE]''], lsr_format = Lmstudio\<rparr>,
        s0\<lparr>world := 1, sent := sent s0 @ [post ?v ?c]\<rparr>)"
    by (rule ollama_fallback [of lmstudio_server s0 "''http://localhost:1234''" "Some ''phi''" "[]"
             example_stringify, THEN conjunct2, THEN conjunct1, rule_format, OF hyp3])
  note shapes = ollama_fallback [of ollama_plain_server s0 "''http://localhost:11434''"
                  "Some ''phi''" "[]" example_stringify, THEN conjunct2, THEN conjunct2]
  note first_shape = shapes [THEN conjunct1]
  note second_shape = shapes [THEN conjunct2, THEN conjunct1]
  note lmstudio_shape =
    ollama_fallback [of lmstudio_server s0 "''http://localhost:1234''" "Some ''phi''" "[]"
      example_stringify, THEN conjunct2, THEN conjunct2, THEN conjunct2, THEN conjunct2,
      THEN conjunct1]
  have 4: "sent (snd (createStreamWithFormat ollama_plain_server example_stringify
                        ''http://localhost:11434'' (Some ''phi'') [] Ollama s0))
     = [\<lparr>url = ''http://localhost:11434/api/chat'', http_method = ''POST'',
         headers = [(''Content-Type'', ''application/json'')],
         body = Some \<lparr>model = Some ''phi'', messages = [], stream_flag = True,
                       options = Some \<lparr>opt_temperature = 7 / 10, top_p = 9 / 10\<rparr>,
                       temperature = None\<rparr>\<rparr>,
        \<lparr>url = ''http://localhost:11434/api/chat'', http_method = ''POST'',
         headers = [(''Content-Type'', ''application/json'')],
         body = Some \<lparr>model = Some ''phi'', messages = [], stream_flag = False,
                       options = Some \<lparr>opt_temperature = 7 / 10, top_p = 9 / 10\<rparr>,
                       temperature = None\<rparr>\<rparr>]"
    by (simp only: 1 first_shape second_shape) (simp add: s0_def)
  have 5: "createStreamWithFormat lmstudio_server example_stringify ''http://localhost:1234''
          (Some ''phi'') [] Lmstudio s0
     = (Inr \<lparr>lsr_stream = [''data: {}'', ''data: [DONE]''], lsr_format = Lmstudio\<rparr>,
        \<lparr>world = 1,
         sent = [\<lparr>url = ''http://localhost:1234/v1/chat/completions'', http_method = ''POST'',
                  headers = [(''Content-Type'', ''application/json'')],
                  body = Some \<lparr>model = Some ''phi'', messages = [], stream_flag = True,
                                options = None, temperature = Some (7 / 10)\<rparr>\<rparr>],
         calls = []\<rparr>)"
    by (simp only: 3 lmstudio_shape) (simp add: s0_def)
  show ?thesis
    using 2 4 5 by simp
qed


section \<open>The local provider's completion\<close>

lemma post_chat_request_for:
  "chat_request_for endpoint mdl msgs (post (chat_url endpoint fmt) (chat_request_body fmt mdl msgs))"
  "chat_request_for endpoint mdl msgs
     (post (chat_url endpoint fmt) ((chat_request_body fmt mdl msgs)\<lparr>stream_flag := False\<rparr>))"
  by (cases fmt; simp add: chat_request_for_def post_def chat_request_body_def)+

lemma cswf_requests:
  assumes "createStreamWithFormat fetch stringify endpoint mdl msgs fmt s = (res, s')"
  shows "\<exists>rest. sent s' = sent s @ post (chat_url endpoint fmt) (chat_request_body fmt mdl msgs) # rest
           \<and> (\<forall>rq \<in> set rest. chat_request_for endpoint mdl msgs rq)"
  using cswf_sent [of fetch stringify endpoint mdl msgs fmt s] assms
  by (auto simp: post_chat_request_for)

lemma try_formats_requests:
  assumes "try_formats fetch stringify endpoint mdl msgs fmts s = (res, s')"
  shows "\<exists>reqs. sent s' = sent s @ reqs \<and> (\<forall>rq \<in> set reqs. chat_request_for endpoint mdl msgs rq)"
  using assms
proof (induction fmts arbitrary: s)
  case Nil
  then show ?case by simp
next
  case (Cons fmt fmts)
  obtain r1 s1 where a: "createStreamWithFormat fetch stringify endpoint mdl msgs fmt s = (r1, s1)"
    by (cases "createStreamWithFormat fetch stringify endpoint mdl msgs fmt s")
  from cswf_requests [OF a] obtain rest
    where q: "sent s1 = sent s @ post (chat_url endpoint fmt) (chat_request_body fmt mdl msgs) # rest"
      and ok: "\<forall>rq \<in> set rest. chat_request_for endpoint mdl msgs rq"
    by auto
  let ?q1 = "post (chat_url endpoint fmt) (chat_request_body fmt mdl msgs) # rest"
  have ok1: "\<forall>rq \<in> set ?q1. chat_request_for endpoint mdl msgs rq"
    using ok by (simp add: post_chat_request_for)
  show ?case
  proof (cases r1)
    case (Inr r)
    with Cons.prems a have "s' = s1" by simp
    with q ok1 show ?thesis by (intro exI [where x = ?q1]) simp
  next
    case (Inl e)
    with Cons.prems a have "try_formats fetch stringify endpoint mdl msgs fmts s1 = (res, s')" by simp
    from Cons.IH [OF this] obtain q2
      where "sent s' = sent s1 @ q2" "\<forall>rq \<in> set q2. chat_request_for endpoint mdl msgs rq"
      by auto
    with q ok1 show ?thesis by (intro exI [where x = "?q1 @ q2"]) auto
  qed
qed

lemma createStream_requests:
  assumes "createStream fetch stringify endpoint mdl msgs None s = (res, s')"
  shows "\<exists>rest. sent s' = sent s @ post (chat_url endpoint Ollama) (chat_request_body Ollama mdl msgs) # rest
           \<and> (\<forall>rq \<in> set rest. chat_request_for endpoint mdl msgs rq)"
proof -
  obtain r1 s1 where a: "createStreamWithFormat fetch stringify endpoint mdl msgs Ollama s = (r1, s1)"
    by (cases "createStreamWithFormat fetch stringify endpoint mdl msgs Ollama s")
  from cswf_requests [OF a] obtain rest
    where q: "sent s1 = sent s @ post (chat_url endpoint Ollama) (chat_request_body Ollama mdl msgs) # rest"
      and ok: "\<forall>rq \<in> set rest. chat_request_for endpoint mdl msgs rq"
    by auto
  show ?thesis
  proof (cases r1)
    case (Inr r)
    with assms a have "s' = s1" by (simp add: createStream_def formats_def)
    with q ok show ?thesis by (intro exI [where x = rest]) simp
  next
    case (Inl e)
    with assms a have "try_formats fetch stringify endpoint mdl msgs [Lmstudio, Openai] s1 = (res, s')"
      by (simp add: createStream_def formats_def)
    from try_formats_requests [OF this] obtain q2
      where "sent s' = sent s1 @ q2" "\<forall>rq \<in> set q2. chat_request_for endpoint mdl msgs rq"
      by auto
    with q ok show ?thesis by (intro exI [where x = "rest @ q2"]) auto
  qed
qed


lemma connect_failed_message:
  "str_includes (message (connect_failed endpoint err)) endpoint
   \<and> str_includes (message (connect_failed endpoint err)) (message err)"
proof -
  have 1: "str_includes (message (connect_failed endpoint err)) endpoint"
    by (simp only: connect_failed_def message.simps str_includes_mid)
  have "str_includes (''Error: '' @ message err) (message err)"
    by (rule str_includes_append_left) (simp add: str_includes_here [of _ "[]", simplified])
  then have 2: "str_includes (message (connect_failed endpoint err)) (message err)"
    by (simp only: connect_failed_def message.simps str_includes_append_left)
  show ?thesis using 1 2 by simp
qed

lemma localModel_cases:
  "(p_model p = None \<or> p_model p = Some [] \<longrightarrow> localModel p = key p)
   \<and> (\<forall>m. p_model p = Some m \<and> m \<noteq> [] \<longrightarrow> localModel p = Some m)"
  by (auto simp: localModel_def or_else_def truthy_str_def)

lemma localEndpoint_cases:
  "(endpoint = None \<or> endpoint = Some [] \<longrightarrow> localEndpoint endpoint = ''http://localhost:11434'')
   \<and> (\<forall>e. endpoint = Some e \<and> e \<noteq> [] \<longrightarrow> localEndpoint endpoint = e)"
  by (auto simp: localEndpoint_def or_default_def default_endpoint_def)

lemma local_generateCompletion_requests:
  assumes "LocalProvider_generateCompletion fetch stringify p s = (res, s')"
  shows "\<exists>rest. sent s' = sent s
                    @ post (chat_url (localEndpoint (apiEndpoint p)) Ollama)
                        (chat_request_body Ollama (localModel p) (as_messages (prompt p))) # rest
           \<and> (\<forall>rq \<in> set rest.
                 chat_request_for (localEndpoint (apiEndpoint p)) (localModel p) (as_messages (prompt p)) rq)"
proof -
  let ?run = "createStream fetch stringify (localEndpoint (apiEndpoint p)) (localModel p)
                (as_messages (prompt p)) None s"
  obtain r1 s1 where a: "?run = (r1, s1)" by (cases ?run)
  with assms have "s' = s1"
    by (auto simp: LocalProvider_generateCompletion_def split: sum.splits)
  with createStream_requests [OF a] show ?thesis by simp
qed

lemma local_generateCompletion_failure:
  assumes "LocalProvider_generateCompletion fetch stringify p s = (Inl e, s')"
  shows "\<exists>cause. createStream fetch stringify (localEndpoint (apiEndpoint p)) (localModel p)
                    (as_messages (prompt p)) None s = (Inl cause, s')
           \<and> e = connect_failed (localEndpoint (apiEndpoint p)) cause"
  using assms
  by (auto simp: LocalProvider_generateCompletion_def split: prod.splits sum.splits)

lemma key_as_model_negotiation:
  "createStream always_404 example_stringify (localEndpoint (apiEndpoint key_as_model))
       (localModel key_as_model) (as_messages (prompt key_as_model)) None s0
     = (Inl (exhausted ''http://localhost:11434''),
        \<lparr>world = 4,
         sent = [post ''http://localhost:11434/api/chat''
                   (chat_request_body Ollama (Some ''phi'') [\<lparr>role = ''user'', content = ''list files''\<rparr>]),
                 post ''http://localhost:11434/api/chat''
                   ((chat_request_body Ollama (Some ''phi'') [\<lparr>role = ''user'', content = ''list files''\<rparr>])
                      \<lparr>stream_flag := False\<rparr>),
                 post ''http://localhost:11434/v1/chat/completions''
                   (chat_request_body Lmstudio (Some ''phi'') [\<lparr>role = ''user'', content = ''list files''\<rparr>]),
                 post ''http://localhost:11434/chat/completions''
                   (chat_request_body Openai (Some ''phi'') [\<lparr>role = ''user'', content = ''list files''\<rparr>])],
         calls = []\<rparr>)"
  by (simp add: localEndpoint_def localModel_def or_else_def exhausted_def
        truthy_str_def or_default_def default_endpoint_def as_messages_def key_as_model_def
        createStream_def formats_def createStreamWithFormat_def do_fetch_def Let_def
        chat_url_def accept_stream_def always_404_def not_found_def post_def s0_def)

lemma key_as_model_run:
  "LocalProvider_generateCompletion always_404 example_stringify key_as_model s0
     = (Inl (connect_failed ''http://localhost:11434'' (exhausted ''http://localhost:11434'')),
        \<lparr>world = 4,
         sent = [post ''http://localhost:11434/api/chat''
                   (chat_request_body Ollama (Some ''phi'') [\<lparr>role = ''user'', content = ''list files''\<rparr>]),
                 post ''http://localhost:11434/api/chat''
                   ((chat_request_body Ollama (Some ''phi'') [\<lparr>role = ''user'', content = ''list files''\<rparr>])
                      \<lparr>stream_flag := False\<rparr>),
                 post ''http://localhost:11434/v1/chat/completions''
                   (chat_request_body Lmstudio (Some ''phi'') [\<lparr>role = ''user'', content = ''list files''\<rparr>]),
                 post ''http://localhost:11434/chat/completions''
                   (chat_request_body Openai (Some ''phi'') [\<lparr>role = ''user'', content = ''list files''\<rparr>])],
         calls = []\<rparr>)"
  by (simp add: LocalProvider_generateCompletion_def localEndpoint_def localModel_def or_else_def
        truthy_str_def or_default_def default_endpoint_def as_messages_def key_as_model_def
        createStream_def formats_def createStreamWithFormat_def do_fetch_def Let_def
        chat_url_def accept_stream_def always_404_def not_found_def post_def s0_def)

text \<open>
  C8. The local provider's effective model is the \<^verbatim>\<open>model\<close> argument, and the \<^verbatim>\<open>key\<close>
  exactly when that argument is absent or empty; its effective endpoint is the given one,
  and \<^verbatim>\<open>http://localhost:11434\<close> exactly when the endpoint is absent or empty. Every
  request of the negotiation goes to a chat URL of the effective endpoint and carries the
  effective model. Every failure of the negotiation becomes one \<^verbatim>\<open>KnownError\<close> whose
  message names the effective endpoint and ends with the message of the negotiator's
  error: whenever \<^verbatim>\<open>createStream\<close> fails with a cause, \<^verbatim>\<open>generateCompletion\<close> fails
  with that error, and every failure of \<^verbatim>\<open>generateCompletion\<close> arises so; whenever
  \<^verbatim>\<open>createStream\<close> succeeds, its stream is what \<^verbatim>\<open>generateCompletion\<close> returns.
\<close>

theorem local_generateCompletion_resolution:
  "(p_model p = None \<or> p_model p = Some [] \<longrightarrow> localModel p = key p)
   \<and> (\<forall>m. p_model p = Some m \<and> m \<noteq> [] \<longrightarrow> localModel p = Some m)
   \<and> (apiEndpoint p = None \<or> apiEndpoint p = Some []
        \<longrightarrow> localEndpoint (apiEndpoint p) = ''http://localhost:11434'')
   \<and> (\<forall>e. apiEndpoint p = Some e \<and> e \<noteq> [] \<longrightarrow> localEndpoint (apiEndpoint p) = e)
   \<and> (\<forall>res s'. LocalProvider_generateCompletion fetch stringify p s = (res, s')
        \<longrightarrow> (\<exists>rest. sent s' = sent s
                        @ post (chat_url (localEndpoint (apiEndpoint p)) Ollama)
                            (chat_request_body Ollama (localModel p) (as_messages (prompt p))) # rest
                 \<and> (\<forall>rq \<in> set rest.
                       chat_request_for (localEndpoint (apiEndpoint p)) (localModel p)
                         (as_messages (prompt p)) rq)))
   \<and> (\<forall>e s'. LocalProvider_generateCompletion fetch stringify p s = (Inl e, s')
        \<longrightarrow> (\<exists>cause.
               createStream fetch stringify (localEndpoint (apiEndpoint p)) (localModel p)
                 (as_messages (prompt p)) None s = (Inl cause, s')
               \<and> e = KnownError (''Failed to connect to local model server at ''
                       @ localEndpoint (apiEndpoint p)
                       @ ''. Make sure your local model server (Ollama, LM Studio, etc.) is running.''
                       @ nl @ nl @ ''Error: '' @ message cause)
               \<and> str_includes (message e) (localEndpoint (apiEndpoint p))
               \<and> str_includes (message e) (message cause)))
   \<and> (\<forall>cause s'.
         createStream fetch stringify (localEndpoint (apiEndpoint p)) (localModel p)
           (as_messages (prompt p)) None s = (Inl cause, s')
        \<longrightarrow> LocalProvider_generateCompletion fetch stringify p s
              = (Inl (KnownError (''Failed to connect to local model server at ''
                       @ localEndpoint (apiEndpoint p)
                       @ ''. Make sure your local model server (Ollama, LM Studio, etc.) is running.''
                       @ nl @ nl @ ''Error: '' @ message cause)), s')
            \<and> str_includes
                  (''Failed to connect to local model server at ''
                       @ localEndpoint (apiEndpoint p)
                       @ ''. Make sure your local model server (Ollama, LM Studio, etc.) is running.''
                       @ nl @ nl @ ''Error: '' @ message cause)
                  (localEndpoint (apiEndpoint p))
            \<and> str_includes
                  (''Failed to connect to local model server at ''
                       @ localEndpoint (apiEndpoint p)
                       @ ''. Make sure your local model server (Ollama, LM Studio, etc.) is running.''
                       @ nl @ nl @ ''Error: '' @ message cause)
                  (message cause))
   \<and> (\<forall>result s'.
         createStream fetch stringify (localEndpoint (apiEndpoint p)) (localModel p)
           (as_messages (prompt p)) None s = (Inr result, s')
        \<longrightarrow> LocalProvider_generateCompletion fetch stringify p s = (Inr (lsr_stream result), s'))"
proof (intro conjI allI impI)
  fix cause s'
  assume c: "createStream fetch stringify (localEndpoint (apiEndpoint p)) (localModel p)
           (as_messages (prompt p)) None s = (Inl cause, s')"
  let ?m = "''Failed to connect to local model server at ''
                       @ localEndpoint (apiEndpoint p)
                       @ ''. Make sure your local model server (Ollama, LM Studio, etc.) is running.''
                       @ nl @ nl @ ''Error: '' @ message cause"
  have m: "message (connect_failed (localEndpoint (apiEndpoint p)) cause) = ?m"
    by (simp add: connect_failed_def)
  show "LocalProvider_generateCompletion fetch stringify p s = (Inl (KnownError ?m), s')"
    using c by (simp add: LocalProvider_generateCompletion_def connect_failed_def)
  show "str_includes ?m (localEndpoint (apiEndpoint p))" "str_includes ?m (message cause)"
    using connect_failed_message [of "localEndpoint (apiEndpoint p)" cause]
    by (simp_all only: m)
next
  fix result s'
  assume "createStream fetch stringify (localEndpoint (apiEndpoint p)) (localModel p)
           (as_messages (prompt p)) None s = (Inr result, s')"
  then show "LocalProvider_generateCompletion fetch stringify p s = (Inr (lsr_stream result), s')"
    by (simp add: LocalProvider_generateCompletion_def)
next
  fix res s'
  assume "LocalProvider_generateCompletion fetch stringify p s = (res, s')"
  then show "\<exists>rest. sent s' = sent s
                        @ post (chat_url (localEndpoint (apiEndpoint p)) Ollama)
                            (chat_request_body Ollama (localModel p) (as_messages (prompt p))) # rest
                 \<and> (\<forall>rq \<in> set rest.
                       chat_request_for (localEndpoint (apiEndpoint p)) (localModel p)
                         (as_messages (prompt p)) rq)"
    by (rule local_generateCompletion_requests)
next
  fix e s'
  assume "LocalProvider_generateCompletion fetch stringify p s = (Inl e, s')"
  from local_generateCompletion_failure [OF this] obtain cause
    where c: "createStream fetch stringify (localEndpoint (apiEndpoint p)) (localModel p)
                (as_messages (prompt p)) None s = (Inl cause, s')"
      and e: "e = connect_failed (localEndpoint (apiEndpoint p)) cause"
    by auto
  have m: "str_includes (message e) (localEndpoint (apiEndpoint p))"
          "str_includes (message e) (message cause)"
    using connect_failed_message [of "localEndpoint (apiEndpoint p)" cause] by (simp_all only: e)
  show "\<exists>cause.
               createStream fetch stringify (localEndpoint (apiEndpoint p)) (localModel p)
                 (as_messages (prompt p)) None s = (Inl cause, s')
               \<and> e = KnownError (''Failed to connect to local model server at ''
                       @ localEndpoint (apiEndpoint p)
                       @ ''. Make sure your local model server (Ollama, LM Studio, etc.) is running.''
                       @ nl @ nl @ ''Error: '' @ message cause)
               \<and> str_includes (message e) (localEndpoint (apiEndpoint p))
               \<and> str_includes (message e) (message cause)"
    using c m by (intro exI [where x = cause]) (simp add: e connect_failed_def)
qed (use localModel_cases [of p] localEndpoint_cases [of "apiEndpoint p"] in simp_all)

theorem local_generateCompletion_resolution_witness:
  "localModel key_as_model = Some ''phi''
   \<and> localEndpoint (apiEndpoint key_as_model) = ''http://localhost:11434''
   \<and> fst (LocalProvider_generateCompletion always_404 example_stringify key_as_model s0)
       = Inl (KnownError (''Failed to connect to local model server at http://localhost:11434''
                @ ''. Make sure your local model server (Ollama, LM Studio, etc.) is running.''
                @ nl @ nl
                @ ''Error: Failed to connect to any local model server at http://localhost:11434''
                @ ''. Supported formats: Ollama, LM Studio, OpenAI-compatible''))
   \<and> str_includes
         (message (connect_failed ''http://localhost:11434'' (exhausted ''http://localhost:11434'')))
         ''http://localhost:11434''
   \<and> str_includes
         (message (connect_failed ''http://localhost:11434'' (exhausted ''http://localhost:11434'')))
         (message (exhausted ''http://localhost:11434''))"
proof -
  note inst = local_generateCompletion_resolution [of key_as_model always_404 example_stringify s0]
  have k: "p_model key_as_model = None \<or> p_model key_as_model = Some []"
    and a: "apiEndpoint key_as_model = None \<or> apiEndpoint key_as_model = Some []"
    and v: "key key_as_model = Some ''phi''"
    by (simp_all add: key_as_model_def)
  have 1: "localModel key_as_model = Some ''phi''"
    using inst [THEN conjunct1, rule_format, OF k] v by simp
  have 2: "localEndpoint (apiEndpoint key_as_model) = ''http://localhost:11434''"
    by (rule inst [THEN conjunct2, THEN conjunct2, THEN conjunct1, rule_format, OF a])
  from inst [THEN conjunct2, THEN conjunct2, THEN conjunct2, THEN conjunct2, THEN conjunct2,
             THEN conjunct1, rule_format, OF key_as_model_run]
  obtain cause where
    c: "connect_failed ''http://localhost:11434'' (exhausted ''http://localhost:11434'')
          = KnownError (''Failed to connect to local model server at ''
                       @ localEndpoint (apiEndpoint key_as_model)
                       @ ''. Make sure your local model server (Ollama, LM Studio, etc.) is running.''
                       @ nl @ nl @ ''Error: '' @ message cause)"
    and i: "str_includes
         (message (connect_failed ''http://localhost:11434'' (exhausted ''http://localhost:11434'')))
         (localEndpoint (apiEndpoint key_as_model))"
    by auto
  note forward = inst [THEN conjunct2, THEN conjunct2, THEN conjunct2, THEN conjunct2,
                       THEN conjunct2, THEN conjunct2, THEN conjunct1, rule_format,
                       OF key_as_model_negotiation, THEN conjunct1]
  have 3: "fst (LocalProvider_generateCompletion always_404 example_stringify key_as_model s0)
       = Inl (KnownError (''Failed to connect to local model server at http://localhost:11434''
                @ ''. Make sure your local model server (Ollama, LM Studio, etc.) is running.''
                @ nl @ nl
                @ ''Error: Failed to connect to any local model server at http://localhost:11434''
                @ ''. Supported formats: Ollama, LM Studio, OpenAI-compatible''))"
    by (simp only: forward 2) (simp add: exhausted_def)
  have 5: "str_includes
         (message (connect_failed ''http://localhost:11434'' (exhausted ''http://localhost:11434'')))
         (message (exhausted ''http://localhost:11434''))"
    using connect_failed_message by blast
  have 4: "str_includes
         (message (connect_failed ''http://localhost:11434'' (exhausted ''http://localhost:11434'')))
         ''http://localhost:11434''"
    using i by (simp only: 2)
  show ?thesis by (intro conjI 1 2 3 4 5)
qed

text \<open>
  C10. When the \<^verbatim>\<open>model\<close> argument and the \<^verbatim>\<open>key\<close> are both absent or empty, the local
  provider has no default model: the effective model is absent or empty, the negotiation
  still takes place (its first request is the ollama chat request to the effective
  endpoint), every request carries a \<^verbatim>\<open>model\<close> that is absent or empty, and when the
  server answers that first request with a stream the stream is returned.
\<close>

theorem local_no_default_model:
  "(p_model p = None \<or> p_model p = Some []) \<and> (key p = None \<or> key p = Some [])
   \<longrightarrow> (localModel p = None \<or> localModel p = Some [])
       \<and> (\<forall>res s'. LocalProvider_generateCompletion fetch stringify p s = (res, s')
            \<longrightarrow> (\<exists>first rest.
                   sent s' = sent s @ first # rest
                   \<and> first = post (chat_url (localEndpoint (apiEndpoint p)) Ollama)
                               (chat_request_body Ollama (key p) (as_messages (prompt p)))
                   \<and> (\<forall>rq \<in> set (first # rest).
                         chat_request_for (localEndpoint (apiEndpoint p)) (key p)
                           (as_messages (prompt p)) rq
                         \<and> (case body rq of
                               None \<Rightarrow> False
                             | Some b \<Rightarrow> model b = None \<or> model b = Some []))))
       \<and> (\<forall>r w1 strm.
             fetch (world s)
               (post (chat_url (localEndpoint (apiEndpoint p)) Ollama)
                  (chat_request_body Ollama (key p) (as_messages (prompt p)))) = (Inr r, w1)
             \<and> ok r \<and> resp_body r = Some strm \<and> is_stream_type r
            \<longrightarrow> LocalProvider_generateCompletion fetch stringify p s
                  = (Inr strm,
                     s\<lparr>world := w1,
                       sent := sent s
                         @ [post (chat_url (localEndpoint (apiEndpoint p)) Ollama)
                              (chat_request_body Ollama (key p) (as_messages (prompt p)))]\<rparr>))"
proof (intro impI)
  assume h: "(p_model p = None \<or> p_model p = Some []) \<and> (key p = None \<or> key p = Some [])"
  then have lm: "localModel p = key p" using localModel_cases [of p] by simp
  have empty: "key p = None \<or> key p = Some []" using h by simp
  let ?ep = "localEndpoint (apiEndpoint p)"
  let ?msgs = "as_messages (prompt p)"
  let ?first = "post (chat_url ?ep Ollama) (chat_request_body Ollama (key p) ?msgs)"
  have reqs: "\<exists>first rest.
                   sent s' = sent s @ first # rest \<and> first = ?first
                   \<and> (\<forall>rq \<in> set (first # rest).
                         chat_request_for ?ep (key p) ?msgs rq
                         \<and> (case body rq of
                               None \<Rightarrow> False
                             | Some b \<Rightarrow> model b = None \<or> model b = Some []))"
    if run: "LocalProvider_generateCompletion fetch stringify p s = (res, s')" for res s'
  proof -
    from local_generateCompletion_requests [OF run] obtain rest
      where q: "sent s' = sent s @ ?first # rest"
        and r: "\<forall>rq \<in> set rest. chat_request_for ?ep (key p) ?msgs rq"
      by (auto simp: lm)
    have all: "\<forall>rq \<in> set (?first # rest). chat_request_for ?ep (key p) ?msgs rq"
      using r by (simp add: post_chat_request_for)
    have "case body rq of None \<Rightarrow> False | Some b \<Rightarrow> model b = None \<or> model b = Some []"
      if "chat_request_for ?ep (key p) ?msgs rq" for rq
      using that empty by (auto simp: chat_request_for_def split: option.splits)
    with all q show ?thesis by (intro exI [where x = ?first] exI [where x = rest]) simp
  qed
  have accept: "LocalProvider_generateCompletion fetch stringify p s
                  = (Inr strm, s\<lparr>world := w1, sent := sent s @ [?first]\<rparr>)"
    if a: "fetch (world s) ?first = (Inr r, w1) \<and> ok r \<and> resp_body r = Some strm \<and> is_stream_type r"
    for r w1 strm
  proof -
    have acc: "accept_stream Ollama r = Some strm" using a by (simp add: accept_ollama)
    have "createStreamWithFormat fetch stringify ?ep (key p) ?msgs Ollama s
            = (Inr \<lparr>lsr_stream = strm, lsr_format = Ollama\<rparr>,
               s\<lparr>world := w1, sent := sent s @ [?first]\<rparr>)"
      using a acc by (intro cswf_accept [where r = r]) simp_all
    then show ?thesis
      by (simp add: LocalProvider_generateCompletion_def lm createStream_def formats_def)
  qed
  show "(localModel p = None \<or> localModel p = Some [])
       \<and> (\<forall>res s'. LocalProvider_generateCompletion fetch stringify p s = (res, s')
            \<longrightarrow> (\<exists>first rest.
                   sent s' = sent s @ first # rest
                   \<and> first = ?first
                   \<and> (\<forall>rq \<in> set (first # rest).
                         chat_request_for ?ep (key p) ?msgs rq
                         \<and> (case body rq of
                               None \<Rightarrow> False
                             | Some b \<Rightarrow> model b = None \<or> model b = Some []))))
       \<and> (\<forall>r w1 strm.
             fetch (world s) ?first = (Inr r, w1)
             \<and> ok r \<and> resp_body r = Some strm \<and> is_stream_type r
            \<longrightarrow> LocalProvider_generateCompletion fetch stringify p s
                  = (Inr strm, s\<lparr>world := w1, sent := sent s @ [?first]\<rparr>))"
    using empty lm reqs accept by (intro conjI allI impI) simp_all
qed


theorem local_no_default_model_witness:
  "((p_model no_model = None \<or> p_model no_model = Some [])
      \<and> (key no_model = None \<or> key no_model = Some []))
   \<and> LocalProvider_generateCompletion ollama_stream_server example_stringify no_model s0
       = (Inr [''{}'', ''{}''],
          \<lparr>world = 1,
           sent = [post ''http://localhost:11434/api/chat''
                     (chat_request_body Ollama (Some [])
                        [\<lparr>role = ''user'', content = ''list files''\<rparr>])],
           calls = []\<rparr>)
   \<and> model (chat_request_body Ollama (Some []) [\<lparr>role = ''user'', content = ''list files''\<rparr>])
       = Some []"
proof -
  have h: "(p_model no_model = None \<or> p_model no_model = Some [])
      \<and> (key no_model = None \<or> key no_model = Some [])"
    by (simp add: no_model_def)
  have ep: "localEndpoint (apiEndpoint no_model) = ''http://localhost:11434''"
    by (simp add: localEndpoint_def or_default_def default_endpoint_def no_model_def)
  have a: "ollama_stream_server (world s0)
               (post (chat_url (localEndpoint (apiEndpoint no_model)) Ollama)
                  (chat_request_body Ollama (key no_model) (as_messages (prompt no_model))))
             = (Inr ollama_stream_reply, 1)
           \<and> ok ollama_stream_reply \<and> resp_body ollama_stream_reply = Some [''{}'', ''{}'']
           \<and> is_stream_type ollama_stream_reply"
    by (simp add: ep ollama_stream_server_def ollama_stream_reply_def post_def chat_url_def
          is_stream_type_def or_default_def s0_def)
  have "LocalProvider_generateCompletion ollama_stream_server example_stringify no_model s0
          = (Inr [''{}'', ''{}''],
             s0\<lparr>world := 1,
                sent := sent s0
                  @ [post (chat_url (localEndpoint (apiEndpoint no_model)) Ollama)
                       (chat_request_body Ollama (key no_model) (as_messages (prompt no_model)))]\<rparr>)"
    by (rule local_no_default_model [of no_model ollama_stream_server example_stringify s0,
          rule_format, OF h, THEN conjunct2, THEN conjunct2, rule_format, OF a])
  then have run: "LocalProvider_generateCompletion ollama_stream_server example_stringify no_model s0
       = (Inr [''{}'', ''{}''],
          \<lparr>world = 1,
           sent = [post ''http://localhost:11434/api/chat''
                     (chat_request_body Ollama (Some [])
                        [\<lparr>role = ''user'', content = ''list files''\<rparr>])],
           calls = []\<rparr>)"
    by (simp add: ep) (simp add: chat_url_def no_model_def as_messages_def s0_def)
  have m: "model (chat_request_body Ollama (Some []) [\<lparr>role = ''user'', content = ''list files''\<rparr>])
       = Some []"
    by (simp add: chat_request_body_def)
  show ?thesis by (intro conjI h [THEN conjunct1] h [THEN conjunct2] run m)
qed


section \<open>Failures of the hosted API\<close>

lemma quota_text_includes:
  "str_includes quota_text ''429''"
  "str_includes quota_text ''https://help.openai.com/en/articles/6891831-error-code-429-you-exceeded-your-current-quota-please-check-your-plan-and-billing-details''"
  "str_includes quota_text ''https://platform.openai.com/account/billing/overview''"
  by (simp_all add: quota_text_def nl_def)

lemma truthy_message_string:
  "truthy (Some j) \<Longrightarrow> message_string pretty (Some j) = pretty j"
  by (cases j) auto

lemma truthy_Some: "truthy v \<Longrightarrow> \<exists>j. v = Some j"
  by (cases v) auto

text \<open>
  The failure of a name lookup, as the client reports it: the branch for \<^verbatim>\<open>ENOTFOUND\<close>
  reads the host name and the system call from \<^verbatim>\<open>error.request\<close>, where they are not,
  so the message names neither.
\<close>

lemma classify_dns_failure:
  "classify parse pretty dns_failure
     = KnownError ''Error connecting to undefined (undefined). Are you connected to the internet?''
   \<and> error_hostname dns_failure = Some ''api.openai.com''
   \<and> \<not> str_includes
           ''Error connecting to undefined (undefined). Are you connected to the internet?''
           ''api.openai.com''"
  by (simp add: classify_def dns_failure_def interpolate_def)

lemma classify_quota:
  assumes "code err \<noteq> Some ''ENOTFOUND''" "response err = Some r" "status r = 429"
  shows "\<exists>m. classify parse pretty err = KnownError m
           \<and> m = quota_text @ nl @ nl @ message_string pretty (error_body parse err) @ nl
           \<and> str_includes m ''429''
           \<and> str_includes m ''https://help.openai.com/en/articles/6891831-error-code-429-you-exceeded-your-current-quota-please-check-your-plan-and-billing-details''
           \<and> str_includes m ''https://platform.openai.com/account/billing/overview''
           \<and> str_includes m (message_string pretty (error_body parse err))"
proof -
  let ?ms = "message_string pretty (error_body parse err)"
  have c: "classify parse pretty err = KnownError (quota_text @ nl @ nl @ ?ms @ nl)"
    using assms by (simp add: classify_def Let_def)
  have "str_includes (quota_text @ (nl @ nl @ ?ms @ nl)) w" if "str_includes quota_text w" for w
    using that by (rule str_includes_append_right)
  moreover have "str_includes ((quota_text @ nl @ nl) @ ?ms @ nl) ?ms"
    by (rule str_includes_mid)
  ultimately show ?thesis using c quota_text_includes by simp
qed

lemma classify_upstream:
  assumes "code err \<noteq> Some ''ENOTFOUND''" "response err = Some r" "status r \<noteq> 429"
    and "truthy (error_body parse err)"
  shows "\<exists>m j. classify parse pretty err = KnownError m
           \<and> m = ''Request to OpenAI failed with status '' @ show_nat (status r) @ '':''
                    @ nl @ nl @ pretty j @ nl
           \<and> str_includes m (show_nat (status r))
           \<and> error_body parse err = Some j \<and> str_includes m (pretty j)"
proof -
  from truthy_Some [OF assms(4)] obtain j where j: "error_body parse err = Some j" by auto
  have ms: "message_string pretty (error_body parse err) = pretty j"
    using assms(4) by (simp add: j truthy_message_string)
  let ?m = "''Request to OpenAI failed with status '' @ show_nat (status r) @ '':''
                    @ nl @ nl @ pretty j @ nl"
  have c: "classify parse pretty err = KnownError ?m"
    using assms by (simp add: classify_def Let_def ms)
  have 1: "str_includes ?m (show_nat (status r))" by (rule str_includes_mid)
  have "str_includes ((''Request to OpenAI failed with status '' @ show_nat (status r) @ '':''
                    @ nl @ nl) @ pretty j @ nl) (pretty j)"
    by (rule str_includes_mid)
  then have 2: "str_includes ?m (pretty j)" by simp
  show ?thesis using c j 1 2 by blast
qed

lemma classify_rethrow:
  assumes "code err \<noteq> Some ''ENOTFOUND''"
    and "response err = None \<or> (\<exists>r. response err = Some r \<and> status r \<noteq> 429 \<and> \<not> truthy (error_body parse err))"
  shows "classify parse pretty err = AxiosError err"
  using assms by (auto simp: classify_def Let_def)

lemma error_body_stream:
  assumes "response err = Some r" "data r = DStream chunks"
  shows "error_body parse err
           = (case parse (concat chunks) of Some j \<Rightarrow> Some j | None \<Rightarrow> Some (JStr (concat chunks)))"
  using assms by (simp add: error_body_def streamToString_def Let_def)

lemma generateCompletion_fails:
  assumes "api (world s) \<lparr>apiKey = key p, basePath = apiEndpoint p, call_request = chat_request p\<rparr>
             = (Inl err, w')"
  shows "fst (OpenAIProvider_generateCompletion api parse pretty p s) = Inl (classify parse pretty err)"
  using assms by (simp add: OpenAIProvider_generateCompletion_def do_call_def)


text \<open>
  C5, as stated, fails for a response whose body is empty or parses to a falsy value:
  \<^verbatim>\<open>response && message\<close> is then false and the error of the client is thrown again as
  it is. For a 502 response whose body is the JSON text \<^verbatim>\<open>null\<close>, the caller gets the
  client's own error, whose message does not carry the body.
\<close>

theorem generateCompletion_null_body_counterexample:
  "fst (OpenAIProvider_generateCompletion (failing_api (http_failure 502 ''null''))
          example_parse example_stringify list_files s0)
     = Inl (AxiosError (http_failure 502 ''null''))
   \<and> message (AxiosError (http_failure 502 ''null'')) = ''Request failed with status code 502''
   \<and> \<not> str_includes (message (AxiosError (http_failure 502 ''null''))) ''null''"
  by (simp add: OpenAIProvider_generateCompletion_def do_call_def failing_api_def classify_def
        error_body_def streamToString_def example_parse_def http_failure_def s0_def Let_def
        show_nat.simps digit_char_def)

text \<open>
  C5, amended. A failing call of the remote provider's \<^verbatim>\<open>generateCompletion\<close> raises the
  classification of the client's error. For an error whose code is not \<^verbatim>\<open>ENOTFOUND\<close>: a
  response with status 429 gives a \<^verbatim>\<open>KnownError\<close> whose message contains \<^verbatim>\<open>429\<close>, the
  two remediation links and the body; any other response whose body, buffered and parsed
  as JSON when it parses (else kept as the raw text), is truthy gives a \<^verbatim>\<open>KnownError\<close>
  whose message contains the status code and the JSON encoding of that body; and when
  there is no response, or the body of a response other than 429 is empty or parses to a
  falsy value, the client's error is thrown again unchanged.
\<close>

theorem generateCompletion_failure:
  "(\<forall>w'. api (world s) \<lparr>apiKey = key p, basePath = apiEndpoint p, call_request = chat_request p\<rparr>
            = (Inl err, w')
        \<longrightarrow> fst (OpenAIProvider_generateCompletion api parse pretty p s)
              = Inl (classify parse pretty err))
   \<and> (\<forall>r. code err \<noteq> Some ''ENOTFOUND'' \<and> response err = Some r \<and> status r = 429
        \<longrightarrow> (\<exists>m. classify parse pretty err = KnownError m
               \<and> m = quota_text @ nl @ nl @ message_string pretty (error_body parse err) @ nl
               \<and> str_includes m ''429''
               \<and> str_includes m ''https://help.openai.com/en/articles/6891831-error-code-429-you-exceeded-your-current-quota-please-check-your-plan-and-billing-details''
               \<and> str_includes m ''https://platform.openai.com/account/billing/overview''
               \<and> str_includes m (message_string pretty (error_body parse err))))
   \<and> (\<forall>r. code err \<noteq> Some ''ENOTFOUND'' \<and> response err = Some r \<and> status r \<noteq> 429
            \<and> truthy (error_body parse err)
        \<longrightarrow> (\<exists>m j. classify parse pretty err = KnownError m
               \<and> m = ''Request to OpenAI failed with status '' @ show_nat (status r) @ '':''
                        @ nl @ nl @ pretty j @ nl
               \<and> str_includes m (show_nat (status r))
               \<and> error_body parse err = Some j \<and> str_includes m (pretty j)))
   \<and> (\<forall>r chunks. response err = Some r \<and> data r = DStream chunks
        \<longrightarrow> error_body parse err
              = (case parse (concat chunks) of
                   Some j \<Rightarrow> Some j
                 | None \<Rightarrow> Some (JStr (concat chunks))))
   \<and> (code err \<noteq> Some ''ENOTFOUND''
        \<and> (response err = None
             \<or> (\<exists>r. response err = Some r \<and> status r \<noteq> 429 \<and> \<not> truthy (error_body parse err)))
        \<longrightarrow> classify parse pretty err = AxiosError err)
   \<and> (\<forall>j. error_body parse err = Some j \<and> truthy (Some j)
        \<longrightarrow> message_string pretty (error_body parse err) = pretty j)"
proof (intro conjI allI impI)
  fix j
  assume "error_body parse err = Some j \<and> truthy (Some j)"
  then show "message_string pretty (error_body parse err) = pretty j"
    by (simp add: truthy_message_string)
next
  fix w'
  assume "api (world s) \<lparr>apiKey = key p, basePath = apiEndpoint p, call_request = chat_request p\<rparr>
            = (Inl err, w')"
  then show "fst (OpenAIProvider_generateCompletion api parse pretty p s)
              = Inl (classify parse pretty err)"
    by (rule generateCompletion_fails)
next
  fix r
  assume "code err \<noteq> Some ''ENOTFOUND'' \<and> response err = Some r \<and> status r = 429"
  then show "\<exists>m. classify parse pretty err = KnownError m
               \<and> m = quota_text @ nl @ nl @ message_string pretty (error_body parse err) @ nl
               \<and> str_includes m ''429''
               \<and> str_includes m ''https://help.openai.com/en/articles/6891831-error-code-429-you-exceeded-your-current-quota-please-check-your-plan-and-billing-details''
               \<and> str_includes m ''https://platform.openai.com/account/billing/overview''
               \<and> str_includes m (message_string pretty (error_body parse err))"
    by (intro classify_quota [where r = r]) simp_all
next
  fix r
  assume "code err \<noteq> Some ''ENOTFOUND'' \<and> response err = Some r \<and> status r \<noteq> 429
            \<and> truthy (error_body parse err)"
  then show "\<exists>m j. classify parse pretty err = KnownError m
               \<and> m = ''Request to OpenAI failed with status '' @ show_nat (status r) @ '':''
                        @ nl @ nl @ pretty j @ nl
               \<and> str_includes m (show_nat (status r))
               \<and> error_body parse err = Some j \<and> str_includes m (pretty j)"
    by (intro classify_upstream) simp_all
next
  fix r chunks
  assume "response err = Some r \<and> data r = DStream chunks"
  then show "error_body parse err
              = (case parse (concat chunks) of
                   Some j \<Rightarrow> Some j
                 | None \<Rightarrow> Some (JStr (concat chunks)))"
    by (intro error_body_stream [where r = r]) simp_all
next
  assume "code err \<noteq> Some ''ENOTFOUND''
        \<and> (response err = None
             \<or> (\<exists>r. response err = Some r \<and> status r \<noteq> 429 \<and> \<not> truthy (error_body parse err)))"
  then show "classify parse pretty err = AxiosError err"
    by (intro classify_rethrow) simp_all
qed


theorem generateCompletion_failure_witness:
  "fst (OpenAIProvider_generateCompletion (failing_api (http_failure 429 ''{}'')) example_parse
          example_stringify list_files s0)
     = Inl (classify example_parse example_stringify (http_failure 429 ''{}''))
   \<and> classify example_parse example_stringify (http_failure 429 ''{}'')
     = KnownError (quota_text @ nl @ nl @ ''{}'' @ nl)
   \<and> str_includes (quota_text @ nl @ nl @ ''{}'' @ nl) ''429''
   \<and> str_includes (quota_text @ nl @ nl @ ''{}'' @ nl)
         ''https://platform.openai.com/account/billing/overview''
   \<and> classify example_parse example_stringify (http_failure 500 ''oops'')
     = KnownError (''Request to OpenAI failed with status 500:'' @ nl @ nl
                    @ example_stringify (JStr ''oops'') @ nl)
   \<and> classify example_parse example_stringify (http_failure 500 ''{}'')
     = KnownError (''Request to OpenAI failed with status 500:'' @ nl @ nl @ ''{}'' @ nl)
   \<and> error_body example_parse (http_failure 500 ''oops'') = Some (JStr ''oops'')
   \<and> error_body example_parse (http_failure 500 ''{}'') = Some (JObj [])
   \<and> classify example_parse example_stringify (http_failure 502 [])
     = AxiosError (http_failure 502 [])
   \<and> message_string example_stringify (error_body example_parse (http_failure 500 ''{}'')) = ''{}''"
proof -
  note inst = generateCompletion_failure [where api = working_api and s = s0 and p = list_files
                 and parse = example_parse and pretty = example_stringify]
  note quota = inst [THEN conjunct2, THEN conjunct1, rule_format]
  note upstream = inst [THEN conjunct2, THEN conjunct2, THEN conjunct1, rule_format]
  note body = inst [THEN conjunct2, THEN conjunct2, THEN conjunct2, THEN conjunct1, rule_format]
  note rethrow = inst [THEN conjunct2, THEN conjunct2, THEN conjunct2, THEN conjunct2,
                       THEN conjunct1, rule_format]
  have 1: "fst (OpenAIProvider_generateCompletion (failing_api (http_failure 429 ''{}''))
                  example_parse example_stringify list_files s0)
     = Inl (classify example_parse example_stringify (http_failure 429 ''{}''))"
    by (rule generateCompletion_failure [of "failing_api (http_failure 429 ''{}'')" s0 list_files
          "http_failure 429 ''{}''", THEN conjunct1, rule_format, of 1])
       (simp add: failing_api_def s0_def)
  have b429: "error_body example_parse (http_failure 429 ''{}'') = Some (JObj [])"
    using body [where err = "http_failure 429 ''{}''" and r = "\<lparr>status = 429, data = DStream [''{}'']\<rparr>"
                  and chunks = "[''{}'']"]
    by (simp add: http_failure_def example_parse_def)
  have "code (http_failure 429 ''{}'') \<noteq> Some ''ENOTFOUND''
        \<and> response (http_failure 429 ''{}'') = Some \<lparr>status = 429, data = DStream [''{}'']\<rparr>
        \<and> status \<lparr>status = 429, data = DStream [''{}'']\<rparr> = 429"
    by (simp add: http_failure_def)
  from quota [where err = "http_failure 429 ''{}''", OF this]
  have 2: "classify example_parse example_stringify (http_failure 429 ''{}'')
             = KnownError (quota_text @ nl @ nl @ ''{}'' @ nl)"
    and 3: "str_includes (quota_text @ nl @ nl @ ''{}'' @ nl) ''429''"
    and 4: "str_includes (quota_text @ nl @ nl @ ''{}'' @ nl)
              ''https://platform.openai.com/account/billing/overview''"
    by (auto simp: b429)
  have b1: "error_body example_parse (http_failure 500 ''oops'') = Some (JStr ''oops'')"
    using body [where err = "http_failure 500 ''oops''" and r = "\<lparr>status = 500, data = DStream [''oops'']\<rparr>"
                  and chunks = "[''oops'']"]
    by (simp add: http_failure_def example_parse_def)
  have "code (http_failure 500 ''oops'') \<noteq> Some ''ENOTFOUND''
        \<and> response (http_failure 500 ''oops'') = Some \<lparr>status = 500, data = DStream [''oops'']\<rparr>
        \<and> status \<lparr>status = 500, data = DStream [''oops'']\<rparr> \<noteq> 429
        \<and> truthy (error_body example_parse (http_failure 500 ''oops''))"
    by (simp add: b1) (simp add: http_failure_def)
  from upstream [where err = "http_failure 500 ''oops''", OF this]
  have 5: "classify example_parse example_stringify (http_failure 500 ''oops'')
     = KnownError (''Request to OpenAI failed with status 500:'' @ nl @ nl
                    @ example_stringify (JStr ''oops'') @ nl)"
    by (auto simp: b1 show_nat.simps digit_char_def)
  have b2: "error_body example_parse (http_failure 500 ''{}'') = Some (JObj [])"
    using body [where err = "http_failure 500 ''{}''" and r = "\<lparr>status = 500, data = DStream [''{}'']\<rparr>"
                  and chunks = "[''{}'']"]
    by (simp add: http_failure_def example_parse_def)
  have "code (http_failure 500 ''{}'') \<noteq> Some ''ENOTFOUND''
        \<and> response (http_failure 500 ''{}'') = Some \<lparr>status = 500, data = DStream [''{}'']\<rparr>
        \<and> status \<lparr>status = 500, data = DStream [''{}'']\<rparr> \<noteq> 429
        \<and> truthy (error_body example_parse (http_failure 500 ''{}''))"
    by (simp add: b2) (simp add: http_failure_def)
  from upstream [where err = "http_failure 500 ''{}''", OF this]
  have 6: "classify example_parse example_stringify (http_failure 500 ''{}'')
     = KnownError (''Request to OpenAI failed with status 500:'' @ nl @ nl @ ''{}'' @ nl)"
    by (auto simp: b2 show_nat.simps digit_char_def)
  have b3: "error_body example_parse (http_failure 502 []) = Some (JStr [])"
    using body [where err = "http_failure 502 []" and r = "\<lparr>status = 502, data = DStream [[]]\<rparr>"
                  and chunks = "[[]]"]
    by (simp add: http_failure_def example_parse_def)
  have "code (http_failure 502 []) \<noteq> Some ''ENOTFOUND''
        \<and> (response (http_failure 502 []) = None
             \<or> (\<exists>r. response (http_failure 502 []) = Some r \<and> status r \<noteq> 429
                   \<and> \<not> truthy (error_body example_parse (http_failure 502 []))))"
    by (simp add: b3) (simp add: http_failure_def)
  from rethrow [where err = "http_failure 502 []", OF this]
  have 7: "classify example_parse example_stringify (http_failure 502 [])
     = AxiosError (http_failure 502 [])" .
  have "error_body example_parse (http_failure 500 ''{}'') = Some (JObj []) \<and> truthy (Some (JObj []))"
    by (simp add: b2)
  from inst [where err = "http_failure 500 ''{}''", THEN conjunct2, THEN conjunct2, THEN conjunct2,
             THEN conjunct2, THEN conjunct2, rule_format, OF this]
  have 8: "message_string example_stringify (error_body example_parse (http_failure 500 ''{}'')) = ''{}''"
    by simp
  show ?thesis by (intro conjI 1 2 3 4 5 6 b1 b2 7 8)
qed

end
